theory Spec2Isabelle
  imports
    Complex_Main
    "HOL-Library.AList"
    "HOL-Library.Char_ord"
    "HOL-Library.List_Lexorder"
begin

section \<open>JavaScript values and built-ins used by the services\<close>

text \<open>
  Sample values are \<open>any\<close> in the source. The parsers deliver strings, numbers, booleans,
  \<open>null\<close> and \<open>undefined\<close>. JavaScript numbers are modelled as exact reals: rounding,
  \<open>NaN\<close> and the infinities of IEEE arithmetic are outside the model, and a conversion that
  yields \<open>NaN\<close> is \<open>None\<close>. Sums, quotients and the comparisons of a score with a
  threshold are therefore exact: what the rounding of doubles decides (a score within a few
  units in the last place of 0.65, the mean of scores that close to it) is not expressed
  here. Strings are lists of code units; the case and white-space functions below cover
  the ASCII range, and leave every other character as it is.
\<close>

datatype jsval = JNull | JUndefined | JStr string | JNum real | JBool bool

datatype js_error = TypeError

text \<open>
  \<open>Number(v)\<close>. The conversion of a string (ECMAScript \<open>StringToNumber\<close>) is a built-in of the
  runtime: it is the parameter \<open>strToNum\<close>, with \<open>None\<close> for \<open>NaN\<close>.
\<close>

definition Number_js :: "(string \<Rightarrow> real option) \<Rightarrow> jsval \<Rightarrow> real option" where
  "Number_js strToNum v =
     (case v of
        JNull \<Rightarrow> Some 0
      | JUndefined \<Rightarrow> None
      | JStr s \<Rightarrow> strToNum s
      | JNum r \<Rightarrow> Some r
      | JBool b \<Rightarrow> Some (if b then 1 else 0))"

text \<open>\<open>new Set(xs)\<close>: the distinct elements in the order of their first insertion.\<close>

definition setAdd :: "'a list \<Rightarrow> 'a \<Rightarrow> 'a list" where
  "setAdd s x = (if x \<in> set s then s else s @ [x])"

definition newSet :: "'a list \<Rightarrow> 'a list" where
  "newSet xs = foldl setAdd [] xs"

text \<open>
  \<open>new Map(entries)\<close>: \<open>set\<close> on a present key replaces the value in place, on an absent key
  appends the entry; \<open>get\<close> is \<^const>\<open>map_of\<close>, the keys in iteration order are \<open>map fst\<close>.
\<close>

definition newMap :: "('k \<times> 'v) list \<Rightarrow> ('k \<times> 'v) list" where
  "newMap entries = foldl (\<lambda>m (k, v). AList.update k v m) [] entries"

text \<open>\<open>String.prototype.toLowerCase\<close> on ASCII letters.\<close>

definition lowerChar :: "char \<Rightarrow> char" where
  "lowerChar c =
     (case map_of (zip ''ABCDEFGHIJKLMNOPQRSTUVWXYZ'' ''abcdefghijklmnopqrstuvwxyz'') c of
        Some d \<Rightarrow> d
      | None \<Rightarrow> c)"

definition toLowerCase :: "string \<Rightarrow> string" where
  "toLowerCase s = map lowerChar s"

text \<open>The character class \<open>[\s_-]\<close>: white space, underscore, hyphen.\<close>

definition isSeparator :: "char \<Rightarrow> bool" where
  "isSeparator c \<longleftrightarrow>
     c \<in> set [CHR '' '', CHR 0x09, CHR 0x0A, CHR 0x0B, CHR 0x0C, CHR 0x0D, CHR ''_'', CHR ''-'']"

text \<open>\<open>name.toLowerCase().replace(/[\s_-]/g, '')\<close>\<close>

definition cleanName :: "string \<Rightarrow> string" where
  "cleanName name = filter (\<lambda>c. \<not> isSeparator c) (toLowerCase name)"

text \<open>
  \<open>s.replace(/id$|pk$|key$|num$|code$|date$|name$|at$|by$/, '')\<close>: the first match is the one
  that starts leftmost; every alternative is anchored at the end, so a match at a position
  is the whole rest of the string, and removing it leaves the prefix before that position.
\<close>

definition suffixes :: "string list" where
  "suffixes = [''id'', ''pk'', ''key'', ''num'', ''code'', ''date'', ''name'', ''at'', ''by'']"

fun stripSuffix :: "string \<Rightarrow> string" where
  "stripSuffix [] = []"
| "stripSuffix (c # cs) = (if (c # cs) \<in> set suffixes then [] else c # stripSuffix cs)"

text \<open>\<open>s.split(sep)\<close> for a one-character separator, and the decimal rendering of an index.\<close>

fun split_on :: "char \<Rightarrow> string \<Rightarrow> string list" where
  "split_on sep [] = [[]]"
| "split_on sep (c # cs) =
     (if c = sep then [] # split_on sep cs
      else (case split_on sep cs of
              [] \<Rightarrow> [[c]]
            | p # ps \<Rightarrow> (c # p) # ps))"

definition digitChar :: "nat \<Rightarrow> char" where
  "digitChar d = ''0123456789'' ! (d mod 10)"

fun showNat :: "nat \<Rightarrow> string" where
  "showNat n = (if n < 10 then [digitChar n] else showNat (n div 10) @ [digitChar (n mod 10)])"

declare showNat.simps [simp del]

section \<open>types.ts\<close>

datatype DataType = TString | TNumber | TBoolean | TDate | TMixed

record ColumnData =
  fileId :: string
  fileName :: string
  originalName :: string
  sampleData :: "jsval list"
  dataType :: DataType

text \<open>The \<open>file\<close> field (the browser's \<open>File\<close> object) is read by neither service.\<close>

record UploadedFile =
  uf_id :: string
  uf_name :: string
  columns :: "ColumnData list"
  rowCount :: nat
  sourceId :: nat
  color :: string

datatype MatchStatus = PENDING | CONFIRMED | DENIED

datatype MatchSource = PROGRAMMATIC | AI | MANUAL

record ColumnInMatch =
  cm_fileId :: string
  cm_fileName :: string
  columnName :: string

record Match =
  match_id :: string
  match_columns :: "ColumnInMatch list"
  programmaticConfidence :: real
  status :: MatchStatus
  match_source :: MatchSource
  finalName :: string

section \<open>matchingService.ts: profiling\<close>

record NumericStats =
  mean :: real
  stddev :: real
  min_stat :: real
  max_stat :: real
  range_stat :: real
  orderOfMagnitude :: real

record ColumnProfile =
  source :: ColumnData
  uniquenessRatio :: real
  valueSet :: "jsval list"
  cleanedName :: string
  baseName :: string
  numericStats :: "NumericStats option"

definition getNumericStats :: "(string \<Rightarrow> real option) \<Rightarrow> jsval list \<Rightarrow> NumericStats option" where
  "getNumericStats strToNum data =
     (let numericData = List.map_filter (Number_js strToNum) data in
      if length numericData < 2 then None
      else
        let n = real (length numericData);
            sum = foldl (+) 0 numericData;
            mean = sum / n;
            mn = foldl min (hd numericData) (tl numericData);
            mx = foldl max (hd numericData) (tl numericData);
            stddev = sqrt (foldl (+) 0 (map (\<lambda>x. (x - mean) ^ 2) numericData) / n)
        in Some \<lparr> mean = mean, stddev = stddev, min_stat = mn, max_stat = mx,
                  range_stat = mx - mn,
                  orderOfMagnitude =
                    of_int \<lfloor>log 10 (if \<bar>mean\<bar> = 0 then 1 else \<bar>mean\<bar>)\<rfloor> \<rparr>)"

definition nonEmpty :: "jsval \<Rightarrow> bool" where
  "nonEmpty d \<longleftrightarrow> d \<noteq> JNull \<and> d \<noteq> JUndefined \<and> d \<noteq> JStr ''''"

definition createColumnProfile :: "(string \<Rightarrow> real option) \<Rightarrow> ColumnData \<Rightarrow> ColumnProfile" where
  "createColumnProfile strToNum column =
     (let sampleData = filter nonEmpty (sampleData column);
          nonNullCount = (if length sampleData = 0 then 1 else length sampleData);
          valueSet = newSet sampleData;
          cleanedName = cleanName (originalName column);
          baseName = stripSuffix cleanedName
      in \<lparr> source = column,
           uniquenessRatio = real (length valueSet) / real nonNullCount,
           valueSet = valueSet,
           cleanedName = cleanedName,
           baseName = baseName,
           numericStats =
             (if dataType column = TNumber \<and> length sampleData > 1
              then getNumericStats strToNum sampleData else None) \<rparr>)"

section \<open>matchingService.ts: similarity metrics\<close>

text \<open>
  The matrix has \<open>length b + 1\<close> rows of \<open>length a + 1\<close> cells; \<open>matrix[j][i] = v\<close> is
  \<open>setCell\<close>. Every index the loops use is within these bounds.
\<close>

definition setCell :: "nat list list \<Rightarrow> nat \<Rightarrow> nat \<Rightarrow> nat \<Rightarrow> nat list list" where
  "setCell matrix j i v = matrix[j := (matrix ! j)[i := v]]"

definition levCell :: "'a list \<Rightarrow> 'a list \<Rightarrow> nat \<Rightarrow> nat \<Rightarrow> nat list list \<Rightarrow> nat list list" where
  "levCell a b j i matrix =
     (let cost = (if a ! (i - 1) = b ! (j - 1) then 0 else 1) in
      setCell matrix j i
        (min (min (matrix ! (j - 1) ! i + 1) (matrix ! j ! (i - 1) + 1))
             (matrix ! (j - 1) ! (i - 1) + cost)))"

definition levenshtein :: "'a list \<Rightarrow> 'a list \<Rightarrow> nat" where
  "levenshtein a b =
     (let matrix0 = replicate (length b + 1) (replicate (length a + 1) 0);
          matrix1 = fold (\<lambda>i m. setCell m 0 i i) [0..<length a + 1] matrix0;
          matrix2 = fold (\<lambda>j m. setCell m j 0 j) [0..<length b + 1] matrix1;
          matrix3 = fold (\<lambda>j m. fold (levCell a b j) [1..<length a + 1] m)
                      [1..<length b + 1] matrix2
      in matrix3 ! length b ! length a)"

definition nameSimilarity :: "'a list \<Rightarrow> 'a list \<Rightarrow> real" where
  "nameSimilarity name1 name2 =
     (let distance = levenshtein name1 name2;
          maxLength = max (length name1) (length name2)
      in if maxLength = 0 then 1 else 1 - real distance / real maxLength)"

definition jaccardSimilarity :: "jsval list \<Rightarrow> jsval list \<Rightarrow> real" where
  "jaccardSimilarity set1 set2 =
     (if length set1 = 0 \<or> length set2 = 0 then 0
      else
        let intersectionSize = length (newSet (filter (\<lambda>x. x \<in> set set2) set1));
            unionSize = real (length set1) + real (length set2) - real intersectionSize
        in if unionSize = 0 then 1 else real intersectionSize / unionSize)"

section \<open>matchingService.ts: the confidence engine\<close>

definition calculateConfidence :: "ColumnProfile \<Rightarrow> ColumnProfile \<Rightarrow> real" where
  "calculateConfidence prof1 prof2 =
     (if dataType (source prof1) \<noteq> dataType (source prof2) then 0
      else
        let baseNameSim = nameSimilarity (baseName prof1) (baseName prof2);
            fullNameSim = nameSimilarity (cleanedName prof1) (cleanedName prof2);
            nameSim = max baseNameSim fullNameSim
        in
        if dataType (source prof1) = TBoolean then
          (let contentSim = jaccardSimilarity (valueSet prof1) (valueSet prof2)
           in nameSim * 0.6 + contentSim * 0.4)
        else if uniquenessRatio prof1 > 0.9 \<and> uniquenessRatio prof2 > 0.9 then nameSim * 0.95
        else
          (case (numericStats prof1, numericStats prof2) of
             (Some ns1, Some ns2) \<Rightarrow>
               (let scaleSimilarity =
                      1 - min 1 (\<bar>orderOfMagnitude ns1 - orderOfMagnitude ns2\<bar> / 5)
                in
                if scaleSimilarity < 0.5 then nameSim * 0.2
                else
                  let cv1 = (if mean ns1 \<noteq> 0 then stddev ns1 / mean ns1 else 0);
                      cv2 = (if mean ns2 \<noteq> 0 then stddev ns2 / mean ns2 else 0);
                      cvSimilarity = 1 - min 1 \<bar>cv1 - cv2\<bar>
                  in nameSim * 0.5 + cvSimilarity * 0.3 + scaleSimilarity * 0.2)
           | _ \<Rightarrow>
               (let contentSim = jaccardSimilarity (valueSet prof1) (valueSet prof2)
                in
                if uniquenessRatio prof1 < 0.5 \<and> uniquenessRatio prof2 < 0.5 \<and> contentSim > 0.1
                then contentSim * 0.7 + nameSim * 0.3
                else nameSim * 0.7 + contentSim * 0.3)))"

section \<open>matchingService.ts: clustering\<close>

text \<open>
  A column is identified by the string \<open>`${fileId}-${originalName}`\<close>; an accepted pair by
  the two keys, sorted and joined with \<open>|\<close>. The sort is the default one of arrays: by
  code units, which is the lexicographic order of \<^typ>\<open>string\<close>.
\<close>

record PairInfo =
  targetKey :: string
  score :: real

record MatchResult =
  matches :: "Match list"
  unmatched :: "ColumnData list"

definition columnKey :: "ColumnData \<Rightarrow> string" where
  "columnKey c = fileId c @ ''-'' @ originalName c"

fun join :: "string \<Rightarrow> string list \<Rightarrow> string" where
  "join sep [] = []"
| "join sep [x] = x"
| "join sep (x # y # zs) = x @ sep @ join sep (y # zs)"

text \<open>
  \<open>const [key1, key2] = pairKey.split('|')\<close>: the first two parts. Every key of \<open>bestPairs\<close>
  is built by \<open>join('|')\<close> of two keys, so it has at least two parts
  (lemma \<open>bestPairs_keys_split\<close> below).
\<close>

definition splitPairKey :: "string \<Rightarrow> string \<times> string" where
  "splitPairKey pairKey = (let parts = split_on CHR ''|'' pairKey in (parts ! 0, parts ! 1))"

definition findMostDescriptiveName :: "ColumnProfile list \<Rightarrow> js_error + string" where
  "findMostDescriptiveName cluster =
     (case cluster of
        [] \<Rightarrow> Inl TypeError
      | first # _ \<Rightarrow>
          Inr (foldl (\<lambda>best current.
                  if length (originalName (source current)) > length best
                  then originalName (source current) else best)
                (originalName (source first)) cluster))"

text \<open>Step 1, inner loop: the best partner of \<open>profiles[i]\<close> among the columns of other files.\<close>

definition bestMatchFor :: "ColumnProfile list \<Rightarrow> nat \<Rightarrow> PairInfo" where
  "bestMatchFor profiles i =
     fold (\<lambda>j bestMatch.
        if i = j then bestMatch
        else
          let prof1 = profiles ! i; prof2 = profiles ! j in
          if fileId (source prof1) \<noteq> fileId (source prof2) then
            (let sc = calculateConfidence prof1 prof2 in
             if sc > score bestMatch
             then \<lparr> targetKey = columnKey (source prof2), score = sc \<rparr>
             else bestMatch)
          else bestMatch)
       [0..<length profiles] \<lparr> targetKey = [], score = 0 \<rparr>"

text \<open>Step 1, outer loop: the map \<open>bestPairs\<close>, in insertion order.\<close>

definition recordBestPair ::
  "ColumnProfile list \<Rightarrow> nat \<Rightarrow> (string \<times> PairInfo) list \<Rightarrow> (string \<times> PairInfo) list" where
  "recordBestPair profiles i bestPairs =
     (let bestMatch = bestMatchFor profiles i;
          prof1Key = columnKey (source (profiles ! i))
      in
      if score bestMatch > 0.65 then
        (let prof2Key = targetKey bestMatch;
             canonicalKey = join ''|'' (sort [prof1Key, prof2Key])
         in
         if map_of bestPairs canonicalKey = None
         then AList.update canonicalKey \<lparr> targetKey = prof2Key, score = score bestMatch \<rparr> bestPairs
         else bestPairs)
      else bestPairs)"

definition findBestPairs :: "ColumnProfile list \<Rightarrow> (string \<times> PairInfo) list" where
  "findBestPairs profiles = fold (recordBestPair profiles) [0..<length profiles] []"

text \<open>
  Step 2. The \<open>for\<close> loop inside the \<open>while\<close> loop: every pair that has \<open>currentKey\<close> as
  one side and whose other side is not yet visited puts the other side on the queue.
\<close>

definition scanPair :: "string \<Rightarrow> string \<Rightarrow> string set \<times> string list \<Rightarrow> string set \<times> string list" where
  "scanPair currentKey otherPairKey st =
     (let (p1, p2) = splitPairKey otherPairKey;
          st1 = (if p1 = currentKey \<and> p2 \<notin> fst st then (insert p2 (fst st), snd st @ [p2]) else st);
          st2 = (if p2 = currentKey \<and> p1 \<notin> fst st1 then (insert p1 (fst st1), snd st1 @ [p1]) else st1)
      in st2)"

definition scanPairs :: "string list \<Rightarrow> string \<Rightarrow> string set \<times> string list \<Rightarrow> string set \<times> string list" where
  "scanPairs pairKeys currentKey st = fold (scanPair currentKey) pairKeys st"

definition pairNodes :: "string list \<Rightarrow> string set" where
  "pairNodes pairKeys = (\<Union>k \<in> set pairKeys. {fst (splitPairKey k), snd (splitPairKey k)})"

text \<open>
  The \<open>while (queue.length > 0)\<close> loop. Its arguments are the keys of \<open>bestPairs\<close>, the
  queue, the set \<open>visited\<close> and the set \<open>currentCluster\<close> (in insertion order); it returns
  the last two.
\<close>

function bfs :: "string list \<Rightarrow> string list \<Rightarrow> string set \<Rightarrow> string list \<Rightarrow> string set \<times> string list" where
  "bfs pairKeys [] visited currentCluster = (visited, currentCluster)"
| "bfs pairKeys (currentKey # queue) visited currentCluster =
     bfs pairKeys (snd (scanPairs pairKeys currentKey (visited, queue)))
       (fst (scanPairs pairKeys currentKey (visited, queue)))
       (setAdd currentCluster currentKey)"
  by pat_completeness auto

text \<open>
  The loop ends: a key is put on the queue only when it joins \<open>visited\<close>, and it is one of
  the finitely many sides of the pairs.
\<close>

lemma finite_pairNodes: "finite (pairNodes ks)"
  by (simp add: pairNodes_def)

lemma scanPair_measure:
  assumes "finite N" "fst (splitPairKey k) \<in> N" "snd (splitPairKey k) \<in> N"
  shows "card (N - fst (scanPair cur k st)) + length (snd (scanPair cur k st))
         = card (N - fst st) + length (snd st)"
proof -
  obtain p1 p2 where p: "splitPairKey k = (p1, p2)" by (cases "splitPairKey k")
  have in1: "p1 \<in> N" and in2: "p2 \<in> N" using assms p by simp_all
  have step: "\<And>x v q. x \<in> N \<Longrightarrow> x \<notin> v \<Longrightarrow>
      card (N - insert x v) + length (q @ [x]) = card (N - v) + length q"
  proof -
    fix x :: string and v :: "string set" and q :: "string list"
    assume x: "x \<in> N" "x \<notin> v"
    have "N - insert x v = (N - v) - {x}" by auto
    moreover have "x \<in> N - v" using x by simp
    moreover have "finite (N - v)" using assms(1) by simp
    ultimately have "card (N - insert x v) = card (N - v) - 1" by simp
    moreover have "card (N - v) > 0"
      using \<open>x \<in> N - v\<close> \<open>finite (N - v)\<close> by (auto simp: card_gt_0_iff)
    ultimately show "card (N - insert x v) + length (q @ [x]) = card (N - v) + length q"
      by simp
  qed
  show ?thesis
    using step in1 in2 by (cases st) (auto simp: scanPair_def p Let_def)
qed

lemma scanPairs_measure:
  assumes "finite N" "pairNodes ks \<subseteq> N"
  shows "card (N - fst (scanPairs ks cur st)) + length (snd (scanPairs ks cur st))
         = card (N - fst st) + length (snd st)"
  using assms(2) unfolding scanPairs_def
proof (induction ks arbitrary: st)
  case Nil
  then show ?case by simp
next
  case (Cons k ks)
  have k: "fst (splitPairKey k) \<in> N" "snd (splitPairKey k) \<in> N"
    using Cons.prems by (auto simp: pairNodes_def)
  have ks: "pairNodes ks \<subseteq> N" using Cons.prems by (auto simp: pairNodes_def)
  show ?case
    using Cons.IH[OF ks, of "scanPair cur k st"] scanPair_measure[OF assms(1) k, of cur st]
    by simp
qed

termination bfs
proof (relation "measure (\<lambda>(ks, queue, visited, cluster). card (pairNodes ks - visited) + length queue)")
  show "wf (measure (\<lambda>(ks, queue, visited, cluster). card (pairNodes ks - visited) + length queue))"
    by simp
next
  fix pairKeys :: "string list" and currentKey :: string and queue :: "string list"
    and visited :: "string set" and currentCluster :: "string list"
  show "((pairKeys, snd (scanPairs pairKeys currentKey (visited, queue)),
          fst (scanPairs pairKeys currentKey (visited, queue)), setAdd currentCluster currentKey),
         (pairKeys, currentKey # queue, visited, currentCluster))
        \<in> measure (\<lambda>(ks, queue, visited, cluster). card (pairNodes ks - visited) + length queue)"
    using scanPairs_measure[OF finite_pairNodes subset_refl, of pairKeys currentKey "(visited, queue)"]
    by simp
qed

text \<open>Step 2, outer loop: one cluster for every pair neither side of which is visited yet.\<close>

definition clusterStep ::
  "string list \<Rightarrow> string \<Rightarrow> (string \<times> string list) list \<times> string set
     \<Rightarrow> (string \<times> string list) list \<times> string set" where
  "clusterStep pairKeys pairKey st =
     (let (key1, key2) = splitPairKey pairKey;
          clusters = fst st;
          visited = snd st
      in
      if key1 \<in> visited \<or> key2 \<in> visited then st
      else
        let res = bfs pairKeys [key1, key2] (insert key2 (insert key1 visited)) []
        in (AList.update key1 (snd res) clusters, fst res))"

definition buildClusters :: "string list \<Rightarrow> (string \<times> string list) list" where
  "buildClusters pairKeys = fst (fold (clusterStep pairKeys) pairKeys ([], {}))"

text \<open>
  Step 3. \<open>bestPairs.get(pairKey)\<close> inside the loop over \<open>bestPairs.keys()\<close> is the value of
  the entry, so the loop runs over the entries. \<open>profileMap.get(key)!\<close> is \<open>undefined\<close> for a
  key that is no column's key, and reading \<open>p.source\<close> of it throws a \<open>TypeError\<close>.
\<close>

definition countPair :: "string list \<Rightarrow> string \<times> PairInfo \<Rightarrow> real \<times> nat \<Rightarrow> real \<times> nat" where
  "countPair clusterKeys entry acc =
     (let (p1, p2) = splitPairKey (fst entry) in
      if p1 \<in> set clusterKeys \<and> p2 \<in> set clusterKeys
      then (fst acc + score (snd entry), snd acc + 1)
      else acc)"

definition clusterConfidence :: "(string \<times> PairInfo) list \<Rightarrow> string list \<Rightarrow> real" where
  "clusterConfidence bestPairs clusterKeys =
     (let acc = fold (countPair clusterKeys) bestPairs (0, 0);
          totalScore = fst acc;
          pairCount = snd acc
      in if pairCount > 0 then totalScore / real pairCount else 0)"

definition columnInMatch :: "ColumnProfile \<Rightarrow> ColumnInMatch" where
  "columnInMatch p =
     \<lparr> cm_fileId = fileId (source p),
       cm_fileName = fileName (source p),
       columnName = originalName (source p) \<rparr>"

definition makeMatch ::
  "(string \<times> ColumnProfile) list \<Rightarrow> (string \<times> PairInfo) list \<Rightarrow> string list \<Rightarrow> nat
     \<Rightarrow> js_error + Match" where
  "makeMatch profileMap bestPairs clusterKeys index =
     (let clusterProfiles = map (map_of profileMap) clusterKeys;
          confidence = clusterConfidence bestPairs clusterKeys
      in
      case those clusterProfiles of
        None \<Rightarrow> Inl TypeError
      | Some profs \<Rightarrow>
          (case findMostDescriptiveName profs of
             Inl e \<Rightarrow> Inl e
           | Inr name \<Rightarrow>
               Inr \<lparr> match_id = ''match-'' @ showNat index,
                     match_columns = map columnInMatch profs,
                     programmaticConfidence = confidence,
                     status = PENDING,
                     match_source = PROGRAMMATIC,
                     finalName = name \<rparr>))"

fun makeMatches ::
  "(string \<times> ColumnProfile) list \<Rightarrow> (string \<times> PairInfo) list \<Rightarrow> string list list \<Rightarrow> nat
     \<Rightarrow> js_error + Match list" where
  "makeMatches profileMap bestPairs [] index = Inr []"
| "makeMatches profileMap bestPairs (clusterKeys # rest) index =
     (case makeMatch profileMap bestPairs clusterKeys index of
        Inl e \<Rightarrow> Inl e
      | Inr m \<Rightarrow>
          (case makeMatches profileMap bestPairs rest (Suc index) of
             Inl e \<Rightarrow> Inl e
           | Inr ms \<Rightarrow> Inr (m # ms)))"

text \<open>
  \<open>matches.sort((a, b) => (b.programmaticConfidence || 0) - (a.programmaticConfidence || 0))\<close>
  is a stable sort by descending confidence.
\<close>

definition generateMatches :: "(string \<Rightarrow> real option) \<Rightarrow> UploadedFile list \<Rightarrow> js_error + MatchResult" where
  "generateMatches strToNum files =
     (if length files < 2 then Inr \<lparr> matches = [], unmatched = [] \<rparr>
      else
        let profiles = concat (map (\<lambda>f. map (createColumnProfile strToNum) (columns f)) files);
            bestPairs = findBestPairs profiles;
            profileMap = newMap (map (\<lambda>p. (columnKey (source p), p)) profiles);
            clusters = buildClusters (map fst bestPairs)
        in
        case makeMatches profileMap bestPairs (map snd clusters) 0 of
          Inl e \<Rightarrow> Inl e
        | Inr ms \<Rightarrow>
            (let matchedColumnKeys = set (concat (map snd clusters));
                 allColumns = concat (map columns files);
                 unmatched = filter (\<lambda>c. columnKey c \<notin> matchedColumnKeys) allColumns
             in Inr \<lparr> matches = sort_key (\<lambda>m. - programmaticConfidence m) ms,
                       unmatched = unmatched \<rparr>))"

section \<open>parserService.ts: row alignment (step 2 of parseFiles)\<close>

text \<open>
  A parsed row is an object from header to value; a missing property reads \<open>undefined\<close>.
  Step 1 of \<open>parseFiles\<close> reads the files; its result, one record per file, is the input here.
\<close>

type_synonym row = "(string \<times> jsval) list"

definition rowGet :: "row \<Rightarrow> string \<Rightarrow> jsval" where
  "rowGet r h = (case map_of r h of None \<Rightarrow> JUndefined | Some v \<Rightarrow> v)"

record IntermediateFile =
  if_id :: string
  if_name :: string
  if_rowCount :: nat
  rawData :: "row list"
  headers :: "string list"

record SimpleProfile =
  sp_header :: string
  sp_uniquenessRatio :: real
  sp_cleanedName :: string

definition createSimpleProfile :: "string \<Rightarrow> row list \<Rightarrow> SimpleProfile" where
  "createSimpleProfile header data =
     (let sample = filter nonEmpty (map (\<lambda>r. rowGet r header) (take 100 data));
          valueSet = newSet sample;
          uniquenessRatio =
            real (length valueSet) / real (if length sample = 0 then 1 else length sample);
          cleanedName = cleanName header
      in \<lparr> sp_header = header, sp_uniquenessRatio = uniquenessRatio, sp_cleanedName = cleanedName \<rparr>)"

record KeyCandidate =
  kc_fileId :: string
  kc_fileName :: string
  kc_header :: string
  kc_cleanedName :: string
  kc_uniquenessRatio :: real

record KeyMatch =
  key1 :: KeyCandidate
  key2 :: KeyCandidate
  km_score :: real

record AlignmentResult =
  success :: bool
  message :: string

definition potentialKeys :: "IntermediateFile list \<Rightarrow> KeyCandidate list" where
  "potentialKeys files =
     filter (\<lambda>p. kc_uniquenessRatio p > 0.9)
       (concat (map (\<lambda>f. map (\<lambda>h.
           let profile = createSimpleProfile h (rawData f)
           in \<lparr> kc_fileId = if_id f, kc_fileName = if_name f, kc_header = h,
                kc_cleanedName = sp_cleanedName profile,
                kc_uniquenessRatio = sp_uniquenessRatio profile \<rparr>) (headers f)) files))"

text \<open>The two nested loops over the candidates; the state is \<open>(bestMatch, maxScore)\<close>.\<close>

definition keyStep ::
  "KeyCandidate list \<Rightarrow> nat \<Rightarrow> nat \<Rightarrow> KeyMatch option \<times> real \<Rightarrow> KeyMatch option \<times> real" where
  "keyStep pks i j st =
     (let k1 = pks ! i; k2 = pks ! j in
      if kc_fileId k1 \<noteq> kc_fileId k2 then
        (let sc = nameSimilarity (kc_cleanedName k1) (kc_cleanedName k2) in
         if sc > snd st then (Some \<lparr> key1 = k1, key2 = k2, km_score = sc \<rparr>, sc) else st)
      else st)"

definition findKeyMatch :: "KeyCandidate list \<Rightarrow> KeyMatch option" where
  "findKeyMatch pks =
     fst (fold (\<lambda>i st. fold (keyStep pks i) [i + 1..<length pks] st) [0..<length pks] (None, 0.7))"

definition quoted :: "string \<Rightarrow> string" where
  "quoted s = CHR 0x22 # s @ [CHR 0x22]"

definition keyIndex :: "string \<Rightarrow> row list \<Rightarrow> (jsval \<times> row) list" where
  "keyIndex header fileData = newMap (map (\<lambda>r. (rowGet r header, r)) fileData)"

definition commonKeysOf :: "(jsval \<times> row) list \<Rightarrow> (jsval \<times> row) list \<Rightarrow> jsval list" where
  "commonKeysOf rowMap1 rowMap2 =
     filter (\<lambda>k. k \<noteq> JNull \<and> k \<noteq> JUndefined \<and> map_of rowMap2 k \<noteq> None) (map fst rowMap1)"

text \<open>
  The result is \<open>alignmentResult\<close> and \<open>finalDataMap\<close>; \<open>rowMap1\<close> and \<open>rowMap2\<close> are
  the source's \<open>map1\<close> and \<open>map2\<close>. \<open>finalDataMap.get(id)!\<close> and
  \<open>map.get(k)!\<close> are \<open>undefined\<close> for an absent key, and the first read of a property of
  \<open>undefined\<close> throws.
\<close>

definition alignRows ::
  "IntermediateFile list \<Rightarrow> js_error + AlignmentResult \<times> (string \<times> row list) list" where
  "alignRows files =
     (let alignmentResult =
            \<lparr> success = False,
              message = ''Could not find a reliable common key to align rows. Sample data may not correspond between files.'' \<rparr>;
          finalDataMap = newMap (map (\<lambda>f. (if_id f, rawData f)) files)
      in
      case findKeyMatch (potentialKeys files) of
        None \<Rightarrow> Inr (alignmentResult, finalDataMap)
      | Some bestMatch \<Rightarrow>
          (let k1 = key1 bestMatch; k2 = key2 bestMatch in
           case (map_of finalDataMap (kc_fileId k1), map_of finalDataMap (kc_fileId k2)) of
             (Some file1Data, Some file2Data) \<Rightarrow>
               (let rowMap1 = keyIndex (kc_header k1) file1Data;
                    rowMap2 = keyIndex (kc_header k2) file2Data;
                    commonKeys = commonKeysOf rowMap1 rowMap2
                in
                if length commonKeys > 10 then
                  (case (those (map (map_of rowMap1) commonKeys), those (map (map_of rowMap2) commonKeys)) of
                     (Some newFile1Data, Some newFile2Data) \<Rightarrow>
                       Inr (\<lparr> success = True,
                              message = ''Successfully aligned rows between '' @ quoted (kc_fileName k1)
                                @ '' and '' @ quoted (kc_fileName k2) @ '' using columns ''
                                @ quoted (kc_header k1) @ '' and '' @ quoted (kc_header k2)
                                @ ''. Sample data is now synchronized for these files.'' \<rparr>,
                            AList.update (kc_fileId k2) newFile2Data
                              (AList.update (kc_fileId k1) newFile1Data finalDataMap))
                   | _ \<Rightarrow> Inl TypeError)
                else
                  Inr (alignmentResult
                         \<lparr> message := ''Found potential key columns ('' @ quoted (kc_header k1)
                             @ '' and '' @ quoted (kc_header k2)
                             @ '') but they had too few common values (''
                             @ showNat (length commonKeys) @ '') to align rows confidently.'' \<rparr>,
                       finalDataMap))
           | _ \<Rightarrow> Inl TypeError))"

section \<open>Edit distance, as the specification words it\<close>

text \<open>
  One edit operation inserts, deletes or substitutes a single character anywhere in the
  string; each costs 1. The Levenshtein distance of two strings is the least number of
  such operations that turns the first into the second.
\<close>

inductive edit_step :: "'a list \<Rightarrow> 'a list \<Rightarrow> bool" where
  insert_char: "edit_step (p @ s) (p @ c # s)"
| delete_char: "edit_step (p @ c # s) (p @ s)"
| substitute_char: "edit_step (p @ c # s) (p @ d # s)"

definition edit_distance :: "'a list \<Rightarrow> 'a list \<Rightarrow> nat" where
  "edit_distance s1 s2 = (LEAST n. (edit_step ^^ n) s1 s2)"

text \<open>The textbook recursion for the same distance.\<close>

fun lev :: "'a list \<Rightarrow> 'a list \<Rightarrow> nat" where
  "lev [] ys = length ys"
| "lev xs [] = length xs"
| "lev (x # xs) (y # ys) =
     min (min (lev xs (y # ys) + 1) (lev (x # xs) ys + 1))
         (lev xs ys + (if x = y then 0 else 1))"

section \<open>Auxiliary notions for the proofs\<close>

text \<open>
  The distance of the prefixes of lengths \<open>i\<close> and \<open>j\<close>, which the cell \<open>matrix[j][i]\<close> is
  meant to hold, and the invariants of the loops that fill the matrix.
\<close>

definition levD :: "'a list \<Rightarrow> 'a list \<Rightarrow> nat \<Rightarrow> nat \<Rightarrow> nat" where
  "levD a b i j = lev (rev (take i a)) (rev (take j b))"

definition matrix_ok :: "nat \<Rightarrow> nat \<Rightarrow> nat list list \<Rightarrow> bool" where
  "matrix_ok la lb m \<longleftrightarrow> length m = lb + 1 \<and> (\<forall>j \<le> lb. length (m ! j) = la + 1)"

definition lev_rows_ok :: "'a list \<Rightarrow> 'a list \<Rightarrow> nat \<Rightarrow> nat list list \<Rightarrow> bool" where
  "lev_rows_ok a b j m \<longleftrightarrow>
     matrix_ok (length a) (length b) m \<and>
     (\<forall>j' < j. \<forall>i \<le> length a. m ! j' ! i = levD a b i j') \<and>
     (\<forall>j' \<le> length b. m ! j' ! 0 = j')"

definition lev_row_ok :: "'a list \<Rightarrow> 'a list \<Rightarrow> nat \<Rightarrow> nat \<Rightarrow> nat list list \<Rightarrow> bool" where
  "lev_row_ok a b j k m \<longleftrightarrow> lev_rows_ok a b j m \<and> (\<forall>i < k. m ! j ! i = levD a b i j)"

text \<open>The profiles of all columns of all files, as \<open>generateMatches\<close> computes them.\<close>

definition allProfiles :: "(string \<Rightarrow> real option) \<Rightarrow> UploadedFile list \<Rightarrow> ColumnProfile list" where
  "allProfiles strToNum files = concat (map (\<lambda>f. map (createColumnProfile strToNum) (columns f)) files)"

text \<open>
  The name, scale and shape similarities of two numeric columns, as the specification of
  the confidence scorer words them.
\<close>

definition spec_nameSim :: "ColumnProfile \<Rightarrow> ColumnProfile \<Rightarrow> real" where
  "spec_nameSim prof1 prof2 =
     max (nameSimilarity (cleanedName prof1) (cleanedName prof2))
         (nameSimilarity (baseName prof1) (baseName prof2))"

definition spec_scaleSimilarity :: "NumericStats \<Rightarrow> NumericStats \<Rightarrow> real" where
  "spec_scaleSimilarity a b = 1 - min 1 (\<bar>orderOfMagnitude a - orderOfMagnitude b\<bar> / 5)"

definition spec_CV :: "NumericStats \<Rightarrow> real" where
  "spec_CV a = (if mean a = 0 then 0 else stddev a / mean a)"

definition spec_shapeSimilarity :: "NumericStats \<Rightarrow> NumericStats \<Rightarrow> real" where
  "spec_shapeSimilarity a b = 1 - min 1 \<bar>spec_CV a - spec_CV b\<bar>"

text \<open>
  The numbers of a column: what \<open>getNumericStats\<close> keeps of the non-empty sample values
  (\<open>data.map(Number).filter(n => !isNaN(n))\<close>).
\<close>

definition numericValues :: "(string \<Rightarrow> real option) \<Rightarrow> ColumnData \<Rightarrow> real list" where
  "numericValues strToNum c = List.map_filter (Number_js strToNum) (filter nonEmpty (sampleData c))"

text \<open>
  The values of a key column, the key values two tables share, and the invariant of the
  loops that pick the pair of key columns.
\<close>

definition keyValues :: "string \<Rightarrow> row list \<Rightarrow> jsval list" where
  "keyValues header fileData = map (\<lambda>r. rowGet r header) fileData"

definition commonKeyValues :: "string \<Rightarrow> row list \<Rightarrow> string \<Rightarrow> row list \<Rightarrow> jsval set" where
  "commonKeyValues h1 d1 h2 d2 =
     (set (keyValues h1 d1) \<inter> set (keyValues h2 d2)) - {JNull, JUndefined}"

definition goodKeyMatch :: "KeyCandidate list \<Rightarrow> KeyMatch \<Rightarrow> bool" where
  "goodKeyMatch pks bm \<longleftrightarrow>
     key1 bm \<in> set pks \<and> key2 bm \<in> set pks \<and>
     kc_fileId (key1 bm) \<noteq> kc_fileId (key2 bm) \<and>
     km_score bm = nameSimilarity (kc_cleanedName (key1 bm)) (kc_cleanedName (key2 bm)) \<and>
     km_score bm > 0.7"

definition keyLoopInv :: "KeyCandidate list \<Rightarrow> KeyMatch option \<times> real \<Rightarrow> bool" where
  "keyLoopInv pks st \<longleftrightarrow>
     0.7 \<le> snd st \<and> (case fst st of None \<Rightarrow> True | Some bm \<Rightarrow> goodKeyMatch pks bm)"

section \<open>Example inputs\<close>

text \<open>
  The identifier of a file is \<open>`${file.name}-${index}`\<close>, as step 1 of \<open>parseFiles\<close> assigns
  it. The first example: two files with one identifier column each.
\<close>

definition idColumnA :: ColumnData where
  "idColumnA = \<lparr> fileId = ''a.csv-0'', fileName = ''a.csv'', originalName = ''id'',
                  sampleData = [JStr ''1'', JStr ''2''], dataType = TString \<rparr>"

definition idColumnB :: ColumnData where
  "idColumnB = \<lparr> fileId = ''b.csv-1'', fileName = ''b.csv'', originalName = ''ID'',
                  sampleData = [JStr ''7'', JStr ''8''], dataType = TString \<rparr>"

definition idFiles :: "UploadedFile list" where
  "idFiles =
     [\<lparr> uf_id = ''a.csv-0'', uf_name = ''a.csv'', columns = [idColumnA],
         rowCount = 2, sourceId = 1, color = ''#A7C7E7'' \<rparr>,
      \<lparr> uf_id = ''b.csv-1'', uf_name = ''b.csv'', columns = [idColumnB],
         rowCount = 2, sourceId = 2, color = ''#F8C8DC'' \<rparr>]"

definition idProfileA :: ColumnProfile where
  "idProfileA = \<lparr> source = idColumnA, uniquenessRatio = 1, valueSet = [JStr ''1'', JStr ''2''],
                   cleanedName = ''id'', baseName = [], numericStats = None \<rparr>"

definition idProfileB :: ColumnProfile where
  "idProfileB = \<lparr> source = idColumnB, uniquenessRatio = 1, valueSet = [JStr ''7'', JStr ''8''],
                   cleanedName = ''id'', baseName = [], numericStats = None \<rparr>"

definition idMatch :: Match where
  "idMatch = \<lparr> match_id = ''match-0'',
       match_columns = [\<lparr> cm_fileId = ''a.csv-0'', cm_fileName = ''a.csv'', columnName = ''id'' \<rparr>,
                        \<lparr> cm_fileId = ''b.csv-1'', cm_fileName = ''b.csv'', columnName = ''ID'' \<rparr>],
       programmaticConfidence = 0.95, status = PENDING, match_source = PROGRAMMATIC,
       finalName = ''id'' \<rparr>"

text \<open>Three files, each with a column whose header contains the character \<open>|\<close>.\<close>

definition pipeColumn :: "string \<Rightarrow> string \<Rightarrow> jsval list \<Rightarrow> ColumnData" where
  "pipeColumn fid fname values =
     \<lparr> fileId = fid, fileName = fname, originalName = ''price|usd'',
       sampleData = values, dataType = TString \<rparr>"

definition pipeProfile :: "string \<Rightarrow> string \<Rightarrow> jsval list \<Rightarrow> ColumnProfile" where
  "pipeProfile fid fname values =
     \<lparr> source = pipeColumn fid fname values, uniquenessRatio = 1, valueSet = values,
       cleanedName = ''price|usd'', baseName = ''price|usd'', numericStats = None \<rparr>"

definition pipeFiles :: "UploadedFile list" where
  "pipeFiles =
     [\<lparr> uf_id = ''a.csv-0'', uf_name = ''a.csv'',
         columns = [pipeColumn ''a.csv-0'' ''a.csv'' [JStr ''ten'', JStr ''nine'']],
         rowCount = 2, sourceId = 1, color = ''#A7C7E7'' \<rparr>,
      \<lparr> uf_id = ''b.csv-1'', uf_name = ''b.csv'',
         columns = [pipeColumn ''b.csv-1'' ''b.csv'' [JStr ''six'', JStr ''five'']],
         rowCount = 2, sourceId = 2, color = ''#F8C8DC'' \<rparr>,
      \<lparr> uf_id = ''c.csv-2'', uf_name = ''c.csv'',
         columns = [pipeColumn ''c.csv-2'' ''c.csv'' [JStr ''four'', JStr ''two'']],
         rowCount = 2, sourceId = 3, color = ''#B2F2BB'' \<rparr>]"

definition pipeProfiles :: "ColumnProfile list" where
  "pipeProfiles =
     [pipeProfile ''a.csv-0'' ''a.csv'' [JStr ''ten'', JStr ''nine''],
      pipeProfile ''b.csv-1'' ''b.csv'' [JStr ''six'', JStr ''five''],
      pipeProfile ''c.csv-2'' ''c.csv'' [JStr ''four'', JStr ''two'']]"

definition pipeBestPairs :: "(string \<times> PairInfo) list" where
  "pipeBestPairs =
     [(''a.csv-0-price|usd|b.csv-1-price|usd'', \<lparr> targetKey = ''b.csv-1-price|usd'', score = 0.95 \<rparr>),
      (''a.csv-0-price|usd|c.csv-2-price|usd'', \<lparr> targetKey = ''a.csv-0-price|usd'', score = 0.95 \<rparr>)]"

text \<open>
  Two files, \<open>t.csv\<close> and \<open>t.csv-0-x.csv\<close>, whose columns \<open>x.csv-1-a\<close> and \<open>a\<close> have the
  same key \<open>t.csv-0-x.csv-1-a\<close>.
\<close>

definition sameKeyColumnA :: ColumnData where
  "sameKeyColumnA = \<lparr> fileId = ''t.csv-0'', fileName = ''t.csv'', originalName = ''x.csv-1-a'',
       sampleData = [JStr ''y'', JStr ''y'', JStr ''y''], dataType = TString \<rparr>"

definition sameKeyColumnB :: ColumnData where
  "sameKeyColumnB = \<lparr> fileId = ''t.csv-0-x.csv-1'', fileName = ''t.csv-0-x.csv'', originalName = ''a'',
       sampleData = [JStr ''y'', JStr ''y'', JStr ''y''], dataType = TString \<rparr>"

definition sameKeyFiles :: "UploadedFile list" where
  "sameKeyFiles =
     [\<lparr> uf_id = ''t.csv-0'', uf_name = ''t.csv'', columns = [sameKeyColumnA],
         rowCount = 3, sourceId = 1, color = ''#A7C7E7'' \<rparr>,
      \<lparr> uf_id = ''t.csv-0-x.csv-1'', uf_name = ''t.csv-0-x.csv'', columns = [sameKeyColumnB],
         rowCount = 3, sourceId = 2, color = ''#F8C8DC'' \<rparr>]"

definition sameKeyProfileA :: ColumnProfile where
  "sameKeyProfileA = \<lparr> source = sameKeyColumnA, uniquenessRatio = 1 / 3, valueSet = [JStr ''y''],
       cleanedName = ''x.csv1a'', baseName = ''x.csv1a'', numericStats = None \<rparr>"

definition sameKeyProfileB :: ColumnProfile where
  "sameKeyProfileB = \<lparr> source = sameKeyColumnB, uniquenessRatio = 1 / 3, valueSet = [JStr ''y''],
       cleanedName = ''a'', baseName = ''a'', numericStats = None \<rparr>"

definition sameKeyMatch :: Match where
  "sameKeyMatch = \<lparr> match_id = ''match-0'',
       match_columns = [\<lparr> cm_fileId = ''t.csv-0-x.csv-1'', cm_fileName = ''t.csv-0-x.csv'', columnName = ''a'' \<rparr>],
       programmaticConfidence = 26 / 35, status = PENDING, match_source = PROGRAMMATIC,
       finalName = ''a'' \<rparr>"

text \<open>The same two files with other sample values, and a third file.\<close>

definition lostColumnA :: ColumnData where
  "lostColumnA = \<lparr> fileId = ''t.csv-0'', fileName = ''t.csv'', originalName = ''x.csv-1-a'',
       sampleData = [JStr ''p'', JStr ''q''], dataType = TString \<rparr>"

definition lostColumnB :: ColumnData where
  "lostColumnB = \<lparr> fileId = ''t.csv-0-x.csv-1'', fileName = ''t.csv-0-x.csv'', originalName = ''a'',
       sampleData = [JStr ''r'', JStr ''s''], dataType = TString \<rparr>"

definition lostColumnC :: ColumnData where
  "lostColumnC = \<lparr> fileId = ''c.csv-2'', fileName = ''c.csv'', originalName = ''a'',
       sampleData = [JStr ''u'', JStr ''v''], dataType = TString \<rparr>"

definition lostFiles :: "UploadedFile list" where
  "lostFiles =
     [\<lparr> uf_id = ''t.csv-0'', uf_name = ''t.csv'', columns = [lostColumnA],
         rowCount = 2, sourceId = 1, color = ''#A7C7E7'' \<rparr>,
      \<lparr> uf_id = ''t.csv-0-x.csv-1'', uf_name = ''t.csv-0-x.csv'', columns = [lostColumnB],
         rowCount = 2, sourceId = 2, color = ''#F8C8DC'' \<rparr>,
      \<lparr> uf_id = ''c.csv-2'', uf_name = ''c.csv'', columns = [lostColumnC],
         rowCount = 2, sourceId = 3, color = ''#B2F2BB'' \<rparr>]"

definition lostProfileA :: ColumnProfile where
  "lostProfileA = \<lparr> source = lostColumnA, uniquenessRatio = 1, valueSet = [JStr ''p'', JStr ''q''],
       cleanedName = ''x.csv1a'', baseName = ''x.csv1a'', numericStats = None \<rparr>"

definition lostProfileB :: ColumnProfile where
  "lostProfileB = \<lparr> source = lostColumnB, uniquenessRatio = 1, valueSet = [JStr ''r'', JStr ''s''],
       cleanedName = ''a'', baseName = ''a'', numericStats = None \<rparr>"

definition lostProfileC :: ColumnProfile where
  "lostProfileC = \<lparr> source = lostColumnC, uniquenessRatio = 1, valueSet = [JStr ''u'', JStr ''v''],
       cleanedName = ''a'', baseName = ''a'', numericStats = None \<rparr>"

definition lostMatch :: Match where
  "lostMatch = \<lparr> match_id = ''match-0'',
       match_columns = [\<lparr> cm_fileId = ''c.csv-2'', cm_fileName = ''c.csv'', columnName = ''a'' \<rparr>,
                        \<lparr> cm_fileId = ''t.csv-0-x.csv-1'', cm_fileName = ''t.csv-0-x.csv'', columnName = ''a'' \<rparr>],
       programmaticConfidence = 0.95, status = PENDING, match_source = PROGRAMMATIC,
       finalName = ''a'' \<rparr>"

text \<open>
  Two files with a date column \<open>x\<close> and a number column \<open>y\<close>, and in both a column with the
  header \<open>x|b.csv-1-y\<close>.
\<close>

definition crossColumnX :: ColumnData where
  "crossColumnX = \<lparr> fileId = ''a.csv-0'', fileName = ''a.csv'', originalName = ''x'',
       sampleData = [JStr ''2020-01-01''], dataType = TDate \<rparr>"

definition crossColumnP :: ColumnData where
  "crossColumnP = \<lparr> fileId = ''a.csv-0'', fileName = ''a.csv'', originalName = ''x|b.csv-1-y'',
       sampleData = [JStr ''k''], dataType = TString \<rparr>"

definition crossColumnY :: ColumnData where
  "crossColumnY = \<lparr> fileId = ''b.csv-1'', fileName = ''b.csv'', originalName = ''y'',
       sampleData = [JStr ''5''], dataType = TNumber \<rparr>"

definition crossColumnQ :: ColumnData where
  "crossColumnQ = \<lparr> fileId = ''b.csv-1'', fileName = ''b.csv'', originalName = ''x|b.csv-1-y'',
       sampleData = [JStr ''k''], dataType = TString \<rparr>"

definition crossFiles :: "UploadedFile list" where
  "crossFiles =
     [\<lparr> uf_id = ''a.csv-0'', uf_name = ''a.csv'', columns = [crossColumnX, crossColumnP],
         rowCount = 1, sourceId = 1, color = ''#A7C7E7'' \<rparr>,
      \<lparr> uf_id = ''b.csv-1'', uf_name = ''b.csv'', columns = [crossColumnY, crossColumnQ],
         rowCount = 1, sourceId = 2, color = ''#F8C8DC'' \<rparr>]"

definition crossProfileX :: ColumnProfile where
  "crossProfileX = \<lparr> source = crossColumnX, uniquenessRatio = 1, valueSet = [JStr ''2020-01-01''],
       cleanedName = ''x'', baseName = ''x'', numericStats = None \<rparr>"

definition crossProfileP :: ColumnProfile where
  "crossProfileP = \<lparr> source = crossColumnP, uniquenessRatio = 1, valueSet = [JStr ''k''],
       cleanedName = ''x|b.csv1y'', baseName = ''x|b.csv1y'', numericStats = None \<rparr>"

definition crossProfileY :: ColumnProfile where
  "crossProfileY = \<lparr> source = crossColumnY, uniquenessRatio = 1, valueSet = [JStr ''5''],
       cleanedName = ''y'', baseName = ''y'', numericStats = None \<rparr>"

definition crossProfileQ :: ColumnProfile where
  "crossProfileQ = \<lparr> source = crossColumnQ, uniquenessRatio = 1, valueSet = [JStr ''k''],
       cleanedName = ''x|b.csv1y'', baseName = ''x|b.csv1y'', numericStats = None \<rparr>"

definition crossMatch :: Match where
  "crossMatch = \<lparr> match_id = ''match-0'',
       match_columns = [\<lparr> cm_fileId = ''a.csv-0'', cm_fileName = ''a.csv'', columnName = ''x'' \<rparr>,
                        \<lparr> cm_fileId = ''b.csv-1'', cm_fileName = ''b.csv'', columnName = ''y'' \<rparr>],
       programmaticConfidence = 0.95, status = PENDING, match_source = PROGRAMMATIC,
       finalName = ''x'' \<rparr>"

text \<open>A transaction amount and an account balance.\<close>

definition amountColumn :: ColumnData where
  "amountColumn = \<lparr> fileId = ''a.csv-0'', fileName = ''a.csv'', originalName = ''transaction_amount'',
       sampleData = [JNum 10, JNum 10, JNum 40, JNum 40], dataType = TNumber \<rparr>"

definition balanceColumn :: ColumnData where
  "balanceColumn = \<lparr> fileId = ''b.csv-1'', fileName = ''b.csv'', originalName = ''account_balance'',
       sampleData = [JNum 10000, JNum 10000, JNum 40000, JNum 40000], dataType = TNumber \<rparr>"

definition amountFiles :: "UploadedFile list" where
  "amountFiles =
     [\<lparr> uf_id = ''a.csv-0'', uf_name = ''a.csv'', columns = [amountColumn],
         rowCount = 4, sourceId = 1, color = ''#A7C7E7'' \<rparr>,
      \<lparr> uf_id = ''b.csv-1'', uf_name = ''b.csv'', columns = [balanceColumn],
         rowCount = 4, sourceId = 2, color = ''#F8C8DC'' \<rparr>]"

definition amountProfile :: ColumnProfile where
  "amountProfile = \<lparr> source = amountColumn, uniquenessRatio = 1 / 2,
       valueSet = [JNum 10, JNum 40],
       cleanedName = ''transactionamount'', baseName = ''transactionamount'',
       numericStats = Some \<lparr> mean = 25, stddev = 15, min_stat = 10, max_stat = 40,
                               range_stat = 30, orderOfMagnitude = 1 \<rparr> \<rparr>"

definition balanceProfile :: ColumnProfile where
  "balanceProfile = \<lparr> source = balanceColumn, uniquenessRatio = 1 / 2,
       valueSet = [JNum 10000, JNum 40000],
       cleanedName = ''accountbalance'', baseName = ''accountbalance'',
       numericStats = Some \<lparr> mean = 25000, stddev = 15000, min_stat = 10000, max_stat = 40000,
                               range_stat = 30000, orderOfMagnitude = 4 \<rparr> \<rparr>"

text \<open>Two parsed files that share eleven order identifiers.\<close>

definition orderFileA :: IntermediateFile where
  "orderFileA = \<lparr> if_id = ''orders.csv-0'', if_name = ''orders.csv'', if_rowCount = 11,
       rawData = map (\<lambda>v. [(''order_id'', JStr v)])
                   [''a'', ''b'', ''c'', ''d'', ''e'', ''f'', ''g'', ''h'', ''i'', ''j'', ''k''],
       headers = [''order_id''] \<rparr>"

definition orderFileB :: IntermediateFile where
  "orderFileB = \<lparr> if_id = ''shipments.csv-1'', if_name = ''shipments.csv'', if_rowCount = 11,
       rawData = map (\<lambda>v. [(''orderId'', JStr v)])
                   [''k'', ''j'', ''i'', ''h'', ''g'', ''f'', ''e'', ''d'', ''c'', ''b'', ''a''],
       headers = [''orderId''] \<rparr>"

definition orderKeyA :: KeyCandidate where
  "orderKeyA = \<lparr> kc_fileId = ''orders.csv-0'', kc_fileName = ''orders.csv'', kc_header = ''order_id'',
       kc_cleanedName = ''orderid'', kc_uniquenessRatio = 1 \<rparr>"

definition orderKeyB :: KeyCandidate where
  "orderKeyB = \<lparr> kc_fileId = ''shipments.csv-1'', kc_fileName = ''shipments.csv'', kc_header = ''orderId'',
       kc_cleanedName = ''orderid'', kc_uniquenessRatio = 1 \<rparr>"

definition orderKeyMatch :: KeyMatch where
  "orderKeyMatch = \<lparr> key1 = orderKeyA, key2 = orderKeyB, km_score = 1 \<rparr>"

text \<open>Two parsed files that share one order identifier.\<close>

definition shortFileA :: IntermediateFile where
  "shortFileA = \<lparr> if_id = ''orders.csv-0'', if_name = ''orders.csv'', if_rowCount = 2,
       rawData = map (\<lambda>v. [(''order_id'', JStr v)]) [''a'', ''b''],
       headers = [''order_id''] \<rparr>"

definition shortFileB :: IntermediateFile where
  "shortFileB = \<lparr> if_id = ''shipments.csv-1'', if_name = ''shipments.csv'', if_rowCount = 2,
       rawData = map (\<lambda>v. [(''orderId'', JStr v)]) [''b'', ''c''],
       headers = [''orderId''] \<rparr>"

section \<open>The edit distance and its recursion\<close>

lemma edit_step_Cons: "edit_step a b \<Longrightarrow> edit_step (x # a) (x # b)"
proof (induction rule: edit_step.induct)
  case (insert_char p s c)
  show ?case using edit_step.insert_char[of "x # p" s c] by simp
next
  case (delete_char p c s)
  show ?case using edit_step.delete_char[of "x # p" c s] by simp
next
  case (substitute_char p c s d)
  show ?case using edit_step.substitute_char[of "x # p" c s d] by simp
qed

lemma edit_step_ins_hd: "edit_step ys (y # ys)"
  using insert_char[of "[]" ys y] by simp

lemma edit_step_del_hd: "edit_step (x # xs) xs"
  using delete_char[of "[]" x xs] by simp

lemma edit_step_sub_hd: "edit_step (x # xs) (y # xs)"
  using substitute_char[of "[]" x xs y] by simp

lemma edit_steps_Cons: "(edit_step ^^ n) a b \<Longrightarrow> (edit_step ^^ n) (x # a) (x # b)"
proof (induction n arbitrary: b)
  case 0
  then show ?case by simp
next
  case (Suc n)
  then obtain m where m: "(edit_step ^^ n) a m" "edit_step m b" by auto
  have "(edit_step ^^ n) (x # a) (x # m)" using m(1) by (rule Suc.IH)
  moreover have "edit_step (x # m) (x # b)" using m(2) by (rule edit_step_Cons)
  ultimately show ?case by (rule relpowp_Suc_I)
qed

lemma edit_steps_from_Nil: "(edit_step ^^ length ys) [] ys"
proof (induction ys)
  case Nil
  then show ?case by simp
next
  case (Cons y ys)
  have "edit_step [] [y]" by (rule edit_step_ins_hd)
  moreover have "(edit_step ^^ length ys) [y] (y # ys)"
    using Cons.IH by (rule edit_steps_Cons)
  ultimately have "(edit_step ^^ Suc (length ys)) [] (y # ys)" by (rule relpowp_Suc_I2)
  then show ?case by simp
qed

lemma edit_steps_to_Nil: "(edit_step ^^ length xs) xs []"
proof (induction xs)
  case Nil
  then show ?case by simp
next
  case (Cons x xs)
  have "edit_step (x # xs) xs" by (rule edit_step_del_hd)
  then have "(edit_step ^^ Suc (length xs)) (x # xs) []" using Cons.IH by (rule relpowp_Suc_I2)
  then show ?case by simp
qed

lemma min3_cases:
  fixes a b c :: nat
  shows "min (min a b) c = a \<or> min (min a b) c = b \<or> min (min a b) c = c"
  by (auto simp: min_def)

lemma lev_reachable: "(edit_step ^^ lev xs ys) xs ys"
proof (induction xs ys rule: lev.induct)
  case (1 ys)
  then show ?case by (simp add: edit_steps_from_Nil)
next
  case (2 x xs)
  then show ?case using edit_steps_to_Nil[of "x # xs"] by simp
next
  case (3 x xs y ys)
  let ?d = "lev xs (y # ys) + 1" and ?i = "lev (x # xs) ys + 1"
    and ?s = "lev xs ys + (if x = y then 0 else 1)"
  have "(edit_step ^^ Suc (lev xs (y # ys))) (x # xs) (y # ys)"
    using edit_step_del_hd[of x xs] "3.IH"(1) by (rule relpowp_Suc_I2)
  then have del: "(edit_step ^^ ?d) (x # xs) (y # ys)" by simp
  have "(edit_step ^^ Suc (lev (x # xs) ys)) (x # xs) (y # ys)"
    using "3.IH"(2) edit_step_ins_hd[of ys y] by (rule relpowp_Suc_I)
  then have ins: "(edit_step ^^ ?i) (x # xs) (y # ys)" by simp
  have sub: "(edit_step ^^ ?s) (x # xs) (y # ys)"
  proof (cases "x = y")
    case True
    then show ?thesis using edit_steps_Cons[OF "3.IH"(3), of x] by simp
  next
    case False
    have "(edit_step ^^ lev xs ys) (x # xs) (x # ys)"
      using "3.IH"(3) by (rule edit_steps_Cons)
    moreover have "edit_step (x # ys) (y # ys)" by (rule edit_step_sub_hd)
    ultimately have "(edit_step ^^ Suc (lev xs ys)) (x # xs) (y # ys)" by (rule relpowp_Suc_I)
    then show ?thesis using False by simp
  qed
  have "min (min ?d ?i) ?s = ?d \<or> min (min ?d ?i) ?s = ?i \<or> min (min ?d ?i) ?s = ?s"
    by (rule min3_cases)
  then have "lev (x # xs) (y # ys) = ?d \<or> lev (x # xs) (y # ys) = ?i \<or> lev (x # xs) (y # ys) = ?s"
    by (simp only: lev.simps)
  then show ?case
  proof (elim disjE)
    assume "lev (x # xs) (y # ys) = ?d"
    then show ?thesis using del by (simp only:)
  next
    assume "lev (x # xs) (y # ys) = ?i"
    then show ?thesis using ins by (simp only:)
  next
    assume "lev (x # xs) (y # ys) = ?s"
    then show ?thesis using sub by (simp only:)
  qed
qed

lemma lev_Nil2: "lev xs [] = length xs"
  by (cases xs) simp_all

lemma lev_ins: "lev xs (c # ys) \<le> lev xs ys + 1"
  by (cases xs) simp_all

lemma lev_del_left: "lev (x # xs) ys \<le> lev xs ys + 1"
  by (cases ys) (simp_all add: lev_Nil2)

lemma lev_del: "lev xs ys \<le> lev xs (c # ys) + 1"
proof (induction xs)
  case Nil
  then show ?case by simp
next
  case (Cons x xs)
  have "lev (x # xs) ys \<le> lev xs ys + 1" by (rule lev_del_left)
  then show ?case using Cons.IH by (simp add: min_def)
qed

lemma lev_sub: "lev xs (d # ys) \<le> lev xs (c # ys) + 1"
proof (induction xs)
  case Nil
  then show ?case by simp
next
  case (Cons x xs)
  then show ?case by (auto simp: min_def)
qed

lemma lev_Cons_step:
  assumes "\<And>xs. lev xs zs \<le> lev xs ys + 1"
  shows "lev xs (c # zs) \<le> lev xs (c # ys) + 1"
proof (induction xs)
  case Nil
  show ?case using assms[of "[]"] by simp
next
  case (Cons x xs)
  have a: "lev (x # xs) zs \<le> lev (x # xs) ys + 1" by (rule assms)
  have b: "lev xs zs \<le> lev xs ys + 1" by (rule assms)
  show ?case using Cons.IH a b by (auto simp: min_def)
qed

lemma lev_context_step:
  assumes "\<And>xs. lev xs zs \<le> lev xs ys + 1"
  shows "lev xs (p @ zs) \<le> lev xs (p @ ys) + 1"
proof (induction p arbitrary: xs)
  case Nil
  show ?case using assms by simp
next
  case (Cons c p)
  show ?case using lev_Cons_step[of "p @ zs" "p @ ys" xs c] Cons.IH by simp
qed

lemma lev_edit_step: "edit_step ys zs \<Longrightarrow> lev xs zs \<le> lev xs ys + 1"
proof (induction rule: edit_step.induct)
  case (insert_char p s c)
  show ?case by (rule lev_context_step) (rule lev_ins)
next
  case (delete_char p c s)
  show ?case by (rule lev_context_step) (rule lev_del)
next
  case (substitute_char p c s d)
  show ?case by (rule lev_context_step) (rule lev_sub)
qed

lemma lev_same: "lev xs xs = 0"
  by (induction xs) simp_all

lemma lev_lower: "(edit_step ^^ n) xs ys \<Longrightarrow> lev xs ys \<le> n"
proof (induction n arbitrary: ys)
  case 0
  then show ?case by (simp add: lev_same)
next
  case (Suc n)
  then obtain m where m: "(edit_step ^^ n) xs m" "edit_step m ys" by auto
  have "lev xs ys \<le> lev xs m + 1" using m(2) by (rule lev_edit_step)
  then show ?case using Suc.IH[OF m(1)] by simp
qed

lemma edit_distance_lev: "edit_distance xs ys = lev xs ys"
  unfolding edit_distance_def
proof (rule Least_equality)
  show "(edit_step ^^ lev xs ys) xs ys" by (rule lev_reachable)
next
  fix n assume "(edit_step ^^ n) xs ys"
  then show "lev xs ys \<le> n" by (rule lev_lower)
qed

lemma edit_step_rev: "edit_step a b \<Longrightarrow> edit_step (rev a) (rev b)"
proof (induction rule: edit_step.induct)
  case (insert_char p s c)
  show ?case using edit_step.insert_char[of "rev s" "rev p" c] by simp
next
  case (delete_char p c s)
  show ?case using edit_step.delete_char[of "rev s" c "rev p"] by simp
next
  case (substitute_char p c s d)
  show ?case using edit_step.substitute_char[of "rev s" c "rev p" d] by simp
qed

lemma edit_steps_rev: "(edit_step ^^ n) a b \<Longrightarrow> (edit_step ^^ n) (rev a) (rev b)"
proof (induction n arbitrary: b)
  case 0
  then show ?case by simp
next
  case (Suc n)
  then obtain m where m: "(edit_step ^^ n) a m" "edit_step m b" by auto
  have "(edit_step ^^ n) (rev a) (rev m)" using m(1) by (rule Suc.IH)
  moreover have "edit_step (rev m) (rev b)" using m(2) by (rule edit_step_rev)
  ultimately show ?case by (rule relpowp_Suc_I)
qed

lemma edit_steps_rev_iff: "(edit_step ^^ n) (rev a) (rev b) \<longleftrightarrow> (edit_step ^^ n) a b"
proof
  assume "(edit_step ^^ n) (rev a) (rev b)"
  then have "(edit_step ^^ n) (rev (rev a)) (rev (rev b))" by (rule edit_steps_rev)
  then show "(edit_step ^^ n) a b" by simp
next
  assume "(edit_step ^^ n) a b"
  then show "(edit_step ^^ n) (rev a) (rev b)" by (rule edit_steps_rev)
qed

lemma edit_distance_rev: "edit_distance (rev a) (rev b) = edit_distance a b"
  by (simp add: edit_distance_def edit_steps_rev_iff)

lemma lev_le_max: "lev xs ys \<le> max (length xs) (length ys)"
proof (induction xs ys rule: lev.induct)
  case (1 ys)
  then show ?case by simp
next
  case (2 x xs)
  then show ?case by simp
next
  case (3 x xs y ys)
  have "lev (x # xs) (y # ys) \<le> lev xs ys + (if x = y then 0 else 1)"
    by (simp only: lev.simps min.cobounded2)
  also have "\<dots> \<le> lev xs ys + 1" by simp
  also have "\<dots> \<le> max (length xs) (length ys) + 1" using "3.IH"(3) by simp
  finally show ?case by simp
qed

section \<open>The matrix computes the edit distance\<close>

lemma fold_upt_invariant:
  assumes "lo \<le> hi" and "P lo s"
    and "\<And>k t. lo \<le> k \<Longrightarrow> k < hi \<Longrightarrow> P k t \<Longrightarrow> P (Suc k) (f k t)"
  shows "P hi (fold f [lo..<hi] s)"
  using assms
proof (induction hi)
  case 0
  then show ?case by simp
next
  case (Suc hi)
  show ?case
  proof (cases "lo = Suc hi")
    case True
    then show ?thesis using Suc.prems(2) by simp
  next
    case False
    then have le: "lo \<le> hi" using Suc.prems(1) by simp
    have "P hi (fold f [lo..<hi] s)"
      using le Suc.prems(2)
    proof (rule Suc.IH)
      fix k t assume "lo \<le> k" "k < hi" "P k t"
      then show "P (Suc k) (f k t)" using Suc.prems(3)[of k t] by simp
    qed
    then have "P (Suc hi) (f hi (fold f [lo..<hi] s))"
      using Suc.prems(3)[of hi "fold f [lo..<hi] s"] le by simp
    then show ?thesis using le by simp
  qed
qed

lemma matrix_ok_setCell:
  assumes "matrix_ok la lb m"
  shows "matrix_ok la lb (setCell m j i v)"
proof (cases "j < length m")
  case True
  then show ?thesis using assms by (auto simp: matrix_ok_def setCell_def nth_list_update)
next
  case False
  then show ?thesis using assms by (simp add: matrix_ok_def setCell_def)
qed

lemma setCell_nth:
  assumes "matrix_ok la lb m" "j \<le> lb" "i \<le> la" "j' \<le> lb"
  shows "setCell m j i v ! j' ! i' = (if j' = j \<and> i' = i then v else m ! j' ! i')"
  using assms by (auto simp: matrix_ok_def setCell_def nth_list_update)

lemma levD_0_left: "j \<le> length b \<Longrightarrow> levD a b 0 j = j"
  by (simp add: levD_def)

lemma levD_0_right: "i \<le> length a \<Longrightarrow> levD a b i 0 = i"
  by (simp add: levD_def lev_Nil2)

lemma levD_Suc:
  assumes "i < length a" "j < length b"
  shows "levD a b (Suc i) (Suc j) =
     min (min (levD a b i (Suc j) + 1) (levD a b (Suc i) j + 1))
         (levD a b i j + (if a ! i = b ! j then 0 else 1))"
  using assms by (simp add: levD_def take_Suc_conv_app_nth)

lemma matrix_ok_replicate: "matrix_ok la lb (replicate (lb + 1) (replicate (la + 1) 0))"
  unfolding matrix_ok_def by (simp del: replicate_Suc add: less_Suc_eq_le[symmetric])

lemma init_first_row:
  fixes la lb :: nat
  defines "m1 \<equiv> fold (\<lambda>i m. setCell m 0 i i) [0..<la + 1] (replicate (lb + 1) (replicate (la + 1) 0))"
  shows "matrix_ok la lb m1 \<and> (\<forall>i < la + 1. m1 ! 0 ! i = i)"
  unfolding m1_def
proof (rule fold_upt_invariant[where P = "\<lambda>k m. matrix_ok la lb m \<and> (\<forall>i < k. m ! 0 ! i = i)"])
  show "0 \<le> la + 1" by simp
  show "matrix_ok la lb (replicate (lb + 1) (replicate (la + 1) 0)) \<and>
        (\<forall>i<0. replicate (lb + 1) (replicate (la + 1) 0) ! 0 ! i = i)"
    using matrix_ok_replicate[of la lb] by simp
next
  fix k t
  assume k: "0 \<le> k" "k < la + 1"
    and P: "matrix_ok la lb t \<and> (\<forall>i < k. t ! 0 ! i = i)"
  have ok: "matrix_ok la lb (setCell t 0 k k)" using P by (simp add: matrix_ok_setCell)
  have "\<forall>i < Suc k. setCell t 0 k k ! 0 ! i = i"
    using P k by (simp add: setCell_nth[where la = la and lb = lb])
  then show "matrix_ok la lb (setCell t 0 k k) \<and> (\<forall>i < Suc k. setCell t 0 k k ! 0 ! i = i)"
    using ok by simp
qed

lemma init_first_column:
  fixes la lb :: nat
  assumes "matrix_ok la lb m1" "\<forall>i < la + 1. m1 ! 0 ! i = i"
  defines "m2 \<equiv> fold (\<lambda>j m. setCell m j 0 j) [0..<lb + 1] m1"
  shows "matrix_ok la lb m2 \<and> (\<forall>i < la + 1. m2 ! 0 ! i = i) \<and> (\<forall>j < lb + 1. m2 ! j ! 0 = j)"
  unfolding m2_def
proof (rule fold_upt_invariant[where P = "\<lambda>k m. matrix_ok la lb m \<and> (\<forall>i < la + 1. m ! 0 ! i = i) \<and> (\<forall>j < k. m ! j ! 0 = j)"])
  show "0 \<le> lb + 1" by simp
  show "matrix_ok la lb m1 \<and> (\<forall>i < la + 1. m1 ! 0 ! i = i) \<and> (\<forall>j<0. m1 ! j ! 0 = j)"
    using assms by simp
next
  fix k t
  assume k: "0 \<le> k" "k < lb + 1"
    and P: "matrix_ok la lb t \<and> (\<forall>i < la + 1. t ! 0 ! i = i) \<and> (\<forall>j < k. t ! j ! 0 = j)"
  have ok: "matrix_ok la lb (setCell t k 0 k)" using P by (simp add: matrix_ok_setCell)
  have row: "\<forall>i < la + 1. setCell t k 0 k ! 0 ! i = i"
    using P k by (simp add: setCell_nth[where la = la and lb = lb])
  have col: "\<forall>j < Suc k. setCell t k 0 k ! j ! 0 = j"
    using P k by (simp add: setCell_nth[where la = la and lb = lb])
  show "matrix_ok la lb (setCell t k 0 k) \<and> (\<forall>i < la + 1. setCell t k 0 k ! 0 ! i = i) \<and>
        (\<forall>j < Suc k. setCell t k 0 k ! j ! 0 = j)"
    using ok row col by simp
qed

lemma levCell_step:
  assumes j: "1 \<le> j" "j \<le> length b" and k: "1 \<le> k" "k < length a + 1"
    and P: "lev_row_ok a b j k t"
  shows "lev_row_ok a b j (Suc k) (levCell a b j k t)"
proof -
  let ?la = "length a" and ?lb = "length b"
  have ok: "matrix_ok ?la ?lb t" using P by (simp add: lev_row_ok_def lev_rows_ok_def)
  have prev: "\<And>j' i. j' < j \<Longrightarrow> i \<le> ?la \<Longrightarrow> t ! j' ! i = levD a b i j'"
    using P by (simp add: lev_row_ok_def lev_rows_ok_def)
  have cur: "\<And>i. i < k \<Longrightarrow> t ! j ! i = levD a b i j"
    using P by (simp add: lev_row_ok_def)
  have col: "\<And>j'. j' \<le> ?lb \<Longrightarrow> t ! j' ! 0 = j'"
    using P by (simp add: lev_row_ok_def lev_rows_ok_def)
  obtain k' j' where kj: "k = Suc k'" "j = Suc j'" using j k by (cases k; cases j) auto
  have up: "t ! (j - 1) ! k = levD a b k (j - 1)" using prev[of "j - 1" k] j k by simp
  have left: "t ! j ! (k - 1) = levD a b (k - 1) j" using cur[of "k - 1"] k by simp
  have diag: "t ! (j - 1) ! (k - 1) = levD a b (k - 1) (j - 1)"
    using prev[of "j - 1" "k - 1"] j k by simp
  define v where "v = min (min (t ! (j - 1) ! k + 1) (t ! j ! (k - 1) + 1))
             (t ! (j - 1) ! (k - 1) + (if a ! (k - 1) = b ! (j - 1) then 0 else 1))"
  have v: "v = levD a b k j"
    using levD_Suc[of k' a j' b] j k kj up left diag by (simp add: v_def min.commute)
  have cell: "levCell a b j k t = setCell t j k v"
    by (simp add: levCell_def v_def)
  have nth: "\<And>j'' i''. j'' \<le> ?lb \<Longrightarrow>
      setCell t j k v ! j'' ! i'' = (if j'' = j \<and> i'' = k then v else t ! j'' ! i'')"
    using setCell_nth[OF ok, of j k] j k by simp
  have ok': "matrix_ok ?la ?lb (setCell t j k v)" using ok by (rule matrix_ok_setCell)
  have prev': "\<forall>j'' < j. \<forall>i \<le> ?la. setCell t j k v ! j'' ! i = levD a b i j''"
    using prev nth j by simp
  have col': "\<forall>j'' \<le> ?lb. setCell t j k v ! j'' ! 0 = j''"
    using col nth k by simp
  have cur': "\<forall>i < Suc k. setCell t j k v ! j ! i = levD a b i j"
    using cur nth[of j] j v by (simp add: less_Suc_eq)
  show ?thesis
    unfolding cell lev_row_ok_def lev_rows_ok_def using ok' prev' col' cur' by simp
qed

lemma lev_row_loop:
  assumes j: "1 \<le> j" "j \<le> length b" and Q: "lev_rows_ok a b j m"
  shows "lev_rows_ok a b (Suc j) (fold (levCell a b j) [1..<length a + 1] m)"
proof -
  have start: "lev_row_ok a b j 1 m"
    using Q j by (simp add: lev_row_ok_def lev_rows_ok_def levD_0_left)
  define r where "r = fold (levCell a b j) [1..<length a + 1] m"
  have "lev_row_ok a b j (length a + 1) r"
    unfolding r_def
  proof (rule fold_upt_invariant[where P = "lev_row_ok a b j"])
    show "1 \<le> length a + 1" by simp
    show "lev_row_ok a b j 1 m" by (rule start)
  next
    fix k t assume "1 \<le> k" "k < length a + 1" "lev_row_ok a b j k t"
    then show "lev_row_ok a b j (Suc k) (levCell a b j k t)"
      using j by (simp add: levCell_step)
  qed
  then have "lev_rows_ok a b (Suc j) r"
    by (auto simp: lev_row_ok_def lev_rows_ok_def less_Suc_eq le_less)
  then show ?thesis by (simp only: r_def)
qed

lemma levenshtein_lev_rev: "levenshtein a b = lev (rev a) (rev b)"
proof -
  let ?la = "length a" and ?lb = "length b"
  define m1 where "m1 = fold (\<lambda>i m. setCell m 0 i i) [0..<?la + 1] (replicate (?lb + 1) (replicate (?la + 1) 0))"
  define m2 where "m2 = fold (\<lambda>j m. setCell m j 0 j) [0..<?lb + 1] m1"
  define m3 where "m3 = fold (\<lambda>j m. fold (levCell a b j) [1..<?la + 1] m) [1..<?lb + 1] m2"
  have 1: "matrix_ok ?la ?lb m1 \<and> (\<forall>i < ?la + 1. m1 ! 0 ! i = i)"
    unfolding m1_def by (rule init_first_row)
  have 2: "matrix_ok ?la ?lb m2 \<and> (\<forall>i < ?la + 1. m2 ! 0 ! i = i) \<and> (\<forall>j < ?lb + 1. m2 ! j ! 0 = j)"
    unfolding m2_def using 1 by (intro init_first_column) simp_all
  have start: "lev_rows_ok a b 1 m2"
    using 2 by (simp add: lev_rows_ok_def levD_0_right less_Suc_eq_le)
  have "lev_rows_ok a b (?lb + 1) m3"
    unfolding m3_def
  proof (rule fold_upt_invariant[where P = "lev_rows_ok a b"])
    show "1 \<le> ?lb + 1" by simp
    show "lev_rows_ok a b 1 m2" by (rule start)
  next
    fix k t assume "1 \<le> k" "k < ?lb + 1" "lev_rows_ok a b k t"
    then have "1 \<le> k" "k \<le> ?lb" "lev_rows_ok a b k t" by simp_all
    then show "lev_rows_ok a b (Suc k) (fold (levCell a b k) [1..<?la + 1] t)"
      by (rule lev_row_loop)
  qed
  then have "m3 ! ?lb ! ?la = levD a b ?la ?lb"
    by (simp add: lev_rows_ok_def)
  then show ?thesis
    by (simp add: levenshtein_def m1_def m2_def m3_def levD_def Let_def)
qed

lemma levenshtein_edit_distance: "levenshtein a b = edit_distance a b"
  by (simp add: levenshtein_lev_rev edit_distance_lev[symmetric] edit_distance_rev)

lemma edit_distance_le_max: "edit_distance a b \<le> max (length a) (length b)"
  by (simp add: edit_distance_lev lev_le_max)

section \<open>Sets, maps and the bounds of the scores\<close>

lemma set_foldl_setAdd: "set (foldl setAdd acc xs) = set acc \<union> set xs"
  by (induction xs arbitrary: acc) (auto simp: setAdd_def)

lemma distinct_foldl_setAdd: "distinct acc \<Longrightarrow> distinct (foldl setAdd acc xs)"
  by (induction xs arbitrary: acc) (auto simp: setAdd_def)

lemma set_newSet: "set (newSet xs) = set xs"
  by (simp add: newSet_def set_foldl_setAdd)

lemma distinct_newSet: "distinct (newSet xs)"
  by (simp add: newSet_def distinct_foldl_setAdd)

lemma length_newSet: "length (newSet xs) = card (set xs)"
  using distinct_card[OF distinct_newSet, of xs] by (simp add: set_newSet)

lemma length_newSet_le: "length (newSet xs) \<le> length xs"
  by (simp add: length_newSet card_length)

lemma set_setAdd: "set (setAdd s x) = insert x (set s)"
  by (auto simp: setAdd_def)

lemma nameSimilarity_le_1: "nameSimilarity a b \<le> 1"
  by (simp add: nameSimilarity_def Let_def)

lemma nameSimilarity_ge_0: "0 \<le> nameSimilarity a b"
proof -
  define d m where "d = levenshtein a b" and "m = max (length a) (length b)"
  have le: "d \<le> m" unfolding d_def m_def
    by (simp add: levenshtein_edit_distance edit_distance_le_max)
  have eq: "nameSimilarity a b = (if m = 0 then 1 else 1 - real d / real m)"
    by (simp add: nameSimilarity_def Let_def d_def m_def)
  show ?thesis
  proof (cases "m = 0")
    case True
    then show ?thesis using eq by simp
  next
    case False
    then have "real d / real m \<le> 1" using le by (simp add: divide_le_eq_1)
    then show ?thesis using eq False by simp
  qed
qed

lemma jaccardSimilarity_le_1: "jaccardSimilarity s1 s2 \<le> 1"
proof -
  define n where "n = length (newSet (filter (\<lambda>x. x \<in> set s2) s1))"
  have n1: "n \<le> length s1"
    unfolding n_def using length_newSet_le[of "filter (\<lambda>x. x \<in> set s2) s1"]
      length_filter_le[of "\<lambda>x. x \<in> set s2" s1] by linarith
  have "set (filter (\<lambda>x. x \<in> set s2) s1) \<subseteq> set s2" by auto
  then have "card (set (filter (\<lambda>x. x \<in> set s2) s1)) \<le> card (set s2)"
    by (intro card_mono) simp_all
  then have n2: "n \<le> length s2"
    unfolding n_def length_newSet using card_length[of s2] by linarith
  have "real n \<le> real (length s1) + real (length s2) - real n" using n1 n2 by simp
  then have "real (length s1) + real (length s2) - real n \<noteq> 0 \<Longrightarrow>
        real n / (real (length s1) + real (length s2) - real n) \<le> 1"
    by (simp add: divide_le_eq_1)
  then show ?thesis
    by (auto simp: jaccardSimilarity_def Let_def n_def[symmetric])
qed

lemma jaccardSimilarity_ge_0: "0 \<le> jaccardSimilarity s1 s2"
proof -
  define n where "n = length (newSet (filter (\<lambda>x. x \<in> set s2) s1))"
  have n1: "n \<le> length s1"
    unfolding n_def using length_newSet_le[of "filter (\<lambda>x. x \<in> set s2) s1"]
      length_filter_le[of "\<lambda>x. x \<in> set s2" s1] by linarith
  have "0 \<le> real (length s1) + real (length s2) - real n" using n1 by simp
  then have "0 \<le> real n / (real (length s1) + real (length s2) - real n)" by simp
  then show ?thesis
    by (auto simp: jaccardSimilarity_def Let_def n_def[symmetric])
qed

lemma calculateConfidence_le_1: "calculateConfidence p1 p2 \<le> 1"
proof -
  define nameSim where "nameSim = max (nameSimilarity (baseName p1) (baseName p2))
      (nameSimilarity (cleanedName p1) (cleanedName p2))"
  define contentSim where "contentSim = jaccardSimilarity (valueSet p1) (valueSet p2)"
  have n: "nameSim \<le> 1" by (simp add: nameSim_def nameSimilarity_le_1)
  have n0: "0 \<le> nameSim" by (simp add: nameSim_def nameSimilarity_ge_0 le_max_iff_disj)
  have c: "contentSim \<le> 1" by (simp add: contentSim_def jaccardSimilarity_le_1)
  have c0: "0 \<le> contentSim" by (simp add: contentSim_def jaccardSimilarity_ge_0)
  have bool: "nameSim * 0.6 + contentSim * 0.4 \<le> 1" using n c by simp
  have ids: "nameSim * 0.95 \<le> 1" using n by simp
  have low: "nameSim * 0.2 \<le> 1" using n by simp
  have cat: "contentSim * 0.7 + nameSim * 0.3 \<le> 1" using n c by simp
  have gen: "nameSim * 0.7 + contentSim * 0.3 \<le> 1" using n c by simp
  have num: "\<And>x y. nameSim * 0.5 + (1 - min 1 \<bar>x\<bar>) * 0.3 + (1 - min 1 (\<bar>y\<bar> / 5)) * 0.2 \<le> 1"
  proof -
    fix x y :: real
    define u v where "u = min 1 \<bar>x\<bar>" and "v = min 1 (\<bar>y\<bar> / 5)"
    have "0 \<le> u" "0 \<le> v" by (simp_all add: u_def v_def)
    then have "nameSim * 0.5 + (1 - u) * 0.3 + (1 - v) * 0.2 \<le> 1"
      using n by argo
    then show "nameSim * 0.5 + (1 - min 1 \<bar>x\<bar>) * 0.3 + (1 - min 1 (\<bar>y\<bar> / 5)) * 0.2 \<le> 1"
      by (simp only: u_def v_def)
  qed
  show ?thesis
    unfolding calculateConfidence_def Let_def nameSim_def[symmetric] contentSim_def[symmetric]
    using bool ids low cat gen num
    by (simp split: option.split prod.split)
qed

section \<open>Accepted pairs and their keys\<close>

lemma bestMatchFor_score_le_1: "score (bestMatchFor ps i) \<le> 1"
  unfolding bestMatchFor_def
  by (rule fold_invariant[where Q = "\<lambda>_. True"])
     (simp_all add: Let_def calculateConfidence_le_1)

lemma update_absent: "map_of al k = None \<Longrightarrow> AList.update k v al = al @ [(k, v)]"
  by (induction al) (auto split: if_splits)

lemma recordBestPair_result:
  "recordBestPair ps i bp = bp \<or>
   (\<exists>k info. recordBestPair ps i bp = bp @ [(k, info)] \<and> map_of bp k = None
       \<and> 0.65 < score info \<and> score info \<le> 1
       \<and> k = join ''|'' (sort [columnKey (source (ps ! i)), targetKey (bestMatchFor ps i)]))"
  using bestMatchFor_score_le_1[of ps i]
  by (auto simp: recordBestPair_def Let_def update_absent)

lemma split_on_nonempty: "split_on c s \<noteq> []"
  by (induction s) (auto split: list.splits)

lemma length_split_on_sep: "2 \<le> length (split_on c (x @ c # y))"
proof (induction x)
  case Nil
  have "1 \<le> length (split_on c y)"
    using split_on_nonempty[of c y] by (cases "split_on c y") auto
  then show ?case by simp
next
  case (Cons d x)
  then show ?case by (auto split: list.splits)
qed

lemma length_split_canonical:
  "2 \<le> length (split_on CHR ''|'' (join ''|'' (sort [a, b])))"
proof -
  have "sort [a, b] = [a, b] \<or> sort [a, b] = [b, a]" by auto
  then show ?thesis using length_split_on_sep[of "CHR ''|''"] by auto
qed

lemma bestPairs_keys_split:
  "k \<in> fst ` set (findBestPairs ps) \<Longrightarrow> 2 \<le> length (split_on CHR ''|'' k)"
proof -
  have "\<forall>k \<in> fst ` set (findBestPairs ps). 2 \<le> length (split_on CHR ''|'' k)"
    unfolding findBestPairs_def
  proof (rule fold_invariant[where Q = "\<lambda>_. True"])
    fix i and bp :: "(string \<times> PairInfo) list"
    assume bp: "\<forall>k \<in> fst ` set bp. 2 \<le> length (split_on CHR ''|'' k)"
    show "\<forall>k \<in> fst ` set (recordBestPair ps i bp). 2 \<le> length (split_on CHR ''|'' k)"
      using recordBestPair_result[of ps i bp] bp length_split_canonical by auto
  qed simp_all
  then show "k \<in> fst ` set (findBestPairs ps) \<Longrightarrow> 2 \<le> length (split_on CHR ''|'' k)"
    by blast
qed

section \<open>The type gate and the numeric rule\<close>

lemma calculateConfidence_type_mismatch:
  "dataType (source prof1) \<noteq> dataType (source prof2) \<Longrightarrow> calculateConfidence prof1 prof2 = 0"
  by (simp add: calculateConfidence_def)

lemma calculateConfidence_numeric:
  assumes "dataType (source prof1) = TNumber" "dataType (source prof2) = TNumber"
    and "numericStats prof1 = Some ns1" "numericStats prof2 = Some ns2"
    and "\<not> (uniquenessRatio prof1 > 0.9 \<and> uniquenessRatio prof2 > 0.9)"
  shows "calculateConfidence prof1 prof2 =
     (if spec_scaleSimilarity ns1 ns2 < 0.5 then 0.2 * spec_nameSim prof1 prof2
      else 0.5 * spec_nameSim prof1 prof2 + 0.3 * spec_shapeSimilarity ns1 ns2
           + 0.2 * spec_scaleSimilarity ns1 ns2)"
  using assms
  by (auto simp: calculateConfidence_def Let_def spec_nameSim_def spec_scaleSimilarity_def
        spec_shapeSimilarity_def spec_CV_def max.commute)

lemma map_filter_Number_JNum: "List.map_filter (Number_js N) (map JNum xs) = xs"
  by (induction xs) (simp_all add: List.map_filter_simps Number_js_def)

lemma filter_nonEmpty_JNum: "filter nonEmpty (map JNum xs) = map JNum xs"
  by (induction xs) (simp_all add: nonEmpty_def)

lemma foldl_plus_sum_list: "foldl (+) (a::real) xs = a + sum_list xs"
  by (induction xs arbitrary: a) simp_all

lemma mean_between:
  fixes xs :: "real list"
  assumes "xs \<noteq> []" "\<forall>x \<in> set xs. lo \<le> x \<and> x \<le> hi"
  shows "lo \<le> sum_list xs / real (length xs) \<and> sum_list xs / real (length xs) \<le> hi"
proof -
  have up: "sum_list xs \<le> hi * real (length xs)"
    using assms(2) by (induction xs) (auto simp: algebra_simps)
  have lo: "lo * real (length xs) \<le> sum_list xs"
    using assms(2) by (induction xs) (auto simp: algebra_simps)
  have pos: "0 < real (length xs)" using assms(1) by simp
  show ?thesis using up lo pos by (simp add: pos_le_divide_eq pos_divide_le_eq)
qed

lemma length_map_filter_le: "length (List.map_filter f xs) \<le> length xs"
  by (induction xs) (auto simp: List.map_filter_simps split: option.splits)

lemma numericStats_of_values:
  assumes "dataType c = TNumber" "2 \<le> length (numericValues N c)"
  shows "\<exists>ns. numericStats (createColumnProfile N c) = Some ns
           \<and> mean ns = sum_list (numericValues N c) / real (length (numericValues N c))
           \<and> orderOfMagnitude ns
               = of_int \<lfloor>log 10 (if \<bar>mean ns\<bar> = 0 then 1 else \<bar>mean ns\<bar>)\<rfloor>"
proof -
  have "length (numericValues N c) \<le> length (filter nonEmpty (sampleData c))"
    unfolding numericValues_def by (rule length_map_filter_le)
  then have "1 < length (filter nonEmpty (sampleData c))" using assms(2) by simp
  then show ?thesis
    using assms
    by (simp add: createColumnProfile_def getNumericStats_def Let_def numericValues_def
          foldl_plus_sum_list)
qed

lemma numericValues_JNum: "sampleData c = map JNum xs \<Longrightarrow> numericValues N c = xs"
  by (simp add: numericValues_def filter_nonEmpty_JNum map_filter_Number_JNum)

lemma floor_log10_small:
  assumes "1 \<le> x" "x \<le> (50::real)"
  shows "0 \<le> \<lfloor>log 10 x\<rfloor> \<and> \<lfloor>log 10 x\<rfloor> \<le> 1"
proof -
  have "0 \<le> log 10 x" using assms by simp
  moreover have "log 10 x < 2"
  proof -
    have "log 10 x < log 10 100" using assms by (subst log_less_cancel_iff) simp_all
    moreover have "log 10 100 = (2::real)"
      using log_nat_power[of 10 10 2] by simp
    ultimately show ?thesis by simp
  qed
  ultimately show ?thesis by (simp add: floor_less_iff le_floor_iff)
qed

lemma floor_log10_large:
  assumes "10000 \<le> x" "x \<le> (50000::real)"
  shows "\<lfloor>log 10 x\<rfloor> = 4"
proof -
  have "0 < x" using assms by simp
  moreover have "(10::real) powr real_of_int 4 \<le> x" using assms by simp
  moreover have "x < (10::real) powr real_of_int (4 + 1)" using assms by simp
  ultimately show ?thesis using floor_log_eq_powr_iff[of x 10 4] by simp
qed

lemma bestMatchFor_score_le:
  assumes "0 \<le> c"
    and "\<And>j. j < length ps \<Longrightarrow> j \<noteq> i \<Longrightarrow> calculateConfidence (ps ! i) (ps ! j) \<le> c"
  shows "score (bestMatchFor ps i) \<le> c"
  unfolding bestMatchFor_def
proof (rule fold_invariant[where Q = "\<lambda>j. j < length ps"])
  show "score \<lparr>targetKey = [], score = 0\<rparr> \<le> c" using assms(1) by simp
next
  fix j and bm :: PairInfo
  assume "j < length ps" "score bm \<le> c"
  then show "score (if i = j then bm
         else let prof1 = ps ! i; prof2 = ps ! j
              in if fileId (source prof1) \<noteq> fileId (source prof2)
                 then let sc = calculateConfidence prof1 prof2
                      in if score bm < sc then \<lparr>targetKey = columnKey (source prof2), score = sc\<rparr>
                         else bm
                 else bm) \<le> c"
    using assms(2)[of j] by (auto simp: Let_def)
qed simp

lemma findBestPairs_none:
  assumes "\<And>i. i < length ps \<Longrightarrow> score (bestMatchFor ps i) \<le> 0.65"
  shows "findBestPairs ps = []"
  unfolding findBestPairs_def
proof (rule fold_invariant[where Q = "\<lambda>i. i < length ps"])
  fix i and bp :: "(string \<times> PairInfo) list"
  assume "i < length ps" "bp = []"
  then show "recordBestPair ps i bp = []"
    using assms[of i] by (simp add: recordBestPair_def Let_def)
qed simp_all

lemma generateMatches_no_pairs:
  assumes "2 \<le> length files" "findBestPairs (allProfiles N files) = []"
  shows "generateMatches N files = Inr \<lparr> matches = [], unmatched = concat (map columns files) \<rparr>"
  using assms by (simp add: generateMatches_def allProfiles_def Let_def buildClusters_def)

lemma scale_mismatch_confidence:
  assumes cA: "dataType cA = TNumber" "2 \<le> length (numericValues N cA)"
      "\<forall>x \<in> set (numericValues N cA). 1 \<le> x \<and> x \<le> 50"
    and cB: "dataType cB = TNumber" "2 \<le> length (numericValues N cB)"
      "\<forall>y \<in> set (numericValues N cB). 10000 \<le> y \<and> y \<le> 50000"
    and notIds: "\<not> (uniquenessRatio (createColumnProfile N cA) > 0.9
                   \<and> uniquenessRatio (createColumnProfile N cB) > 0.9)"
  shows "calculateConfidence (createColumnProfile N cA) (createColumnProfile N cB)
           = 0.2 * spec_nameSim (createColumnProfile N cA) (createColumnProfile N cB)"
    and "calculateConfidence (createColumnProfile N cB) (createColumnProfile N cA)
           = 0.2 * spec_nameSim (createColumnProfile N cB) (createColumnProfile N cA)"
proof -
  let ?pA = "createColumnProfile N cA" and ?pB = "createColumnProfile N cB"
  define xs where "xs = numericValues N cA"
  define ys where "ys = numericValues N cB"
  obtain nsA where nsA: "numericStats ?pA = Some nsA" "mean nsA = sum_list xs / real (length xs)"
      "orderOfMagnitude nsA = of_int \<lfloor>log 10 (if \<bar>mean nsA\<bar> = 0 then 1 else \<bar>mean nsA\<bar>)\<rfloor>"
    using numericStats_of_values[OF cA(1,2)] unfolding xs_def by blast
  obtain nsB where nsB: "numericStats ?pB = Some nsB" "mean nsB = sum_list ys / real (length ys)"
      "orderOfMagnitude nsB = of_int \<lfloor>log 10 (if \<bar>mean nsB\<bar> = 0 then 1 else \<bar>mean nsB\<bar>)\<rfloor>"
    using numericStats_of_values[OF cB(1,2)] unfolding ys_def by blast
  have xs: "xs \<noteq> []" and ys: "ys \<noteq> []" using cA(2) cB(2) by (auto simp: xs_def ys_def)
  have inA: "\<forall>x \<in> set xs. 1 \<le> x \<and> x \<le> 50" using cA(3) by (simp add: xs_def)
  have inB: "\<forall>y \<in> set ys. 10000 \<le> y \<and> y \<le> 50000" using cB(3) by (simp add: ys_def)
  have mA: "1 \<le> mean nsA \<and> mean nsA \<le> 50"
    using mean_between[OF xs inA] nsA(2) by simp
  have mB: "10000 \<le> mean nsB \<and> mean nsB \<le> 50000"
    using mean_between[OF ys inB] nsB(2) by simp
  have oA: "0 \<le> \<lfloor>log 10 (mean nsA)\<rfloor> \<and> \<lfloor>log 10 (mean nsA)\<rfloor> \<le> 1"
    using floor_log10_small mA by blast
  have oB: "\<lfloor>log 10 (mean nsB)\<rfloor> = 4"
    using floor_log10_large mB by blast
  have oomA: "orderOfMagnitude nsA = of_int \<lfloor>log 10 (mean nsA)\<rfloor>"
    using nsA(3) mA by simp
  have oomB: "orderOfMagnitude nsB = 4"
    using nsB(3) mB oB by simp
  have "orderOfMagnitude nsA \<le> 1" using oomA oA by simp
  then have diff: "3 \<le> \<bar>orderOfMagnitude nsA - orderOfMagnitude nsB\<bar>"
      "3 \<le> \<bar>orderOfMagnitude nsB - orderOfMagnitude nsA\<bar>"
    using oomB by simp_all
  have scale: "spec_scaleSimilarity nsA nsB < 0.5" "spec_scaleSimilarity nsB nsA < 0.5"
    using diff by (simp_all add: spec_scaleSimilarity_def min_def)
  have tyA: "dataType (source ?pA) = TNumber" and tyB: "dataType (source ?pB) = TNumber"
    using cA(1) cB(1) by (simp_all add: createColumnProfile_def Let_def)
  have notIds': "\<not> (uniquenessRatio ?pB > 0.9 \<and> uniquenessRatio ?pA > 0.9)"
    using notIds by blast
  show "calculateConfidence ?pA ?pB = 0.2 * spec_nameSim ?pA ?pB"
    using calculateConfidence_numeric[OF tyA tyB nsA(1) nsB(1) notIds] scale(1) by simp
  show "calculateConfidence ?pB ?pA = 0.2 * spec_nameSim ?pB ?pA"
    using calculateConfidence_numeric[OF tyB tyA nsB(1) nsA(1) notIds'] scale(2) by simp
qed

lemma spec_nameSim_le_1: "spec_nameSim p1 p2 \<le> 1"
  by (simp add: spec_nameSim_def nameSimilarity_le_1)

lemma uniquenessRatio_createColumnProfile:
  "uniquenessRatio (createColumnProfile N c) =
     real (length (newSet (filter nonEmpty (sampleData c))))
       / real (if length (filter nonEmpty (sampleData c)) = 0 then 1
               else length (filter nonEmpty (sampleData c)))"
  by (simp add: createColumnProfile_def Let_def)

section \<open>Row alignment\<close>

lemma map_fst_update: "map fst (AList.update k v m) = setAdd (map fst m) k"
  by (induction m) (auto simp: setAdd_def)

lemma map_fst_foldl_update:
  "map fst (foldl (\<lambda>m (k, v). AList.update k v m) acc es) = foldl setAdd (map fst acc) (map fst es)"
  by (induction es arbitrary: acc) (auto simp: map_fst_update)

lemma map_fst_newMap: "map fst (newMap es) = newSet (map fst es)"
  by (simp add: newMap_def newSet_def map_fst_foldl_update)

lemma map_of_foldl_update:
  "map_of (foldl (\<lambda>m (k, v). AList.update k v m) acc es) = map_of acc ++ map_of (rev es)"
proof (induction es arbitrary: acc)
  case Nil
  then show ?case by simp
next
  case (Cons e es)
  obtain k v where e: "e = (k, v)" by (cases e)
  have "map_of (AList.update k v acc) ++ map_of (rev es) = map_of acc ++ map_of (rev es @ [(k, v)])"
    by (rule ext) (auto simp: update_conv' map_add_def split: option.splits)
  then show ?case using Cons.IH[of "AList.update k v acc"] e by simp
qed

lemma map_of_newMap: "map_of (newMap es) = map_of (rev es)"
  by (simp add: newMap_def map_of_foldl_update)

lemma map_of_newMap_distinct:
  assumes "distinct (map fst es)" "(k, v) \<in> set es"
  shows "map_of (newMap es) k = Some v"
  using assms by (simp add: map_of_newMap rev_map[symmetric])

lemma keyIndex_keys: "map fst (keyIndex h d) = newSet (keyValues h d)"
  by (simp add: keyIndex_def map_fst_newMap keyValues_def comp_def)

lemma keyIndex_lookup:
  assumes "map_of (keyIndex h d) k = Some r"
  shows "r \<in> set d \<and> rowGet r h = k"
proof -
  have "map_of (rev (map (\<lambda>r. (rowGet r h, r)) d)) k = Some r"
    using assms by (simp add: keyIndex_def map_of_newMap)
  then have "(k, r) \<in> set (rev (map (\<lambda>r. (rowGet r h, r)) d))"
    by (rule map_of_SomeD)
  then show ?thesis by auto
qed

lemma keyIndex_defined:
  "map_of (keyIndex h d) k \<noteq> None \<longleftrightarrow> k \<in> set (keyValues h d)"
proof -
  have "map_of (keyIndex h d) k \<noteq> None \<longleftrightarrow> k \<in> fst ` set (keyIndex h d)"
    by (simp add: map_of_eq_None_iff)
  also have "\<dots> \<longleftrightarrow> k \<in> set (map fst (keyIndex h d))" by simp
  also have "\<dots> \<longleftrightarrow> k \<in> set (keyValues h d)" by (simp only: keyIndex_keys set_newSet)
  finally show ?thesis .
qed

lemma commonKeysOf_alt:
  "commonKeysOf (keyIndex h1 d1) (keyIndex h2 d2) =
     filter (\<lambda>k. k \<in> commonKeyValues h1 d1 h2 d2) (newSet (keyValues h1 d1))"
proof -
  have "\<And>k. k \<in> set (newSet (keyValues h1 d1)) \<Longrightarrow>
      (k \<noteq> JNull \<and> k \<noteq> JUndefined \<and> map_of (keyIndex h2 d2) k \<noteq> None)
        = (k \<in> commonKeyValues h1 d1 h2 d2)"
    using keyIndex_defined[of h2 d2] by (auto simp: commonKeyValues_def set_newSet)
  then show ?thesis
    unfolding commonKeysOf_def keyIndex_keys by (intro filter_cong) simp_all
qed

lemma length_commonKeysOf:
  "length (commonKeysOf (keyIndex h1 d1) (keyIndex h2 d2)) = card (commonKeyValues h1 d1 h2 d2)"
proof -
  let ?ks = "filter (\<lambda>k. k \<in> commonKeyValues h1 d1 h2 d2) (newSet (keyValues h1 d1))"
  have "distinct ?ks" by (simp add: distinct_newSet)
  then have "card (set ?ks) = length ?ks" by (rule distinct_card)
  then have "length ?ks = card (set ?ks)" by (rule sym)
  moreover have "set ?ks = commonKeyValues h1 d1 h2 d2"
    by (auto simp: set_newSet commonKeyValues_def)
  ultimately show ?thesis by (simp add: commonKeysOf_alt)
qed

lemma those_map_Some:
  assumes "\<And>k. k \<in> set ks \<Longrightarrow> f k \<noteq> None"
  shows "those (map f ks) = Some (map (\<lambda>k. the (f k)) ks)"
  using assms by (induction ks) (auto split: option.splits)

lemma keyStep_inv:
  assumes "i < length pks" "j < length pks" "keyLoopInv pks st"
  shows "keyLoopInv pks (keyStep pks i j st)"
  using assms
  by (auto simp: keyStep_def keyLoopInv_def goodKeyMatch_def Let_def split: option.splits)

lemma findKeyMatch_good:
  assumes "findKeyMatch pks = Some bm"
  shows "goodKeyMatch pks bm"
proof -
  have "keyLoopInv pks
      (fold (\<lambda>i st. fold (keyStep pks i) [i + 1..<length pks] st) [0..<length pks] (None, 0.7))"
  proof (rule fold_invariant[where Q = "\<lambda>i. i < length pks"])
    show "keyLoopInv pks (None, 0.7)" by (simp add: keyLoopInv_def)
  next
    fix i and st :: "KeyMatch option \<times> real"
    assume i: "i < length pks" and st: "keyLoopInv pks st"
    show "keyLoopInv pks (fold (keyStep pks i) [i + 1..<length pks] st)"
    proof (rule fold_invariant[where Q = "\<lambda>j. j < length pks"])
      show "keyLoopInv pks st" by (rule st)
    next
      fix j and st' :: "KeyMatch option \<times> real"
      assume "j < length pks" "keyLoopInv pks st'"
      then show "keyLoopInv pks (keyStep pks i j st')" using i by (simp add: keyStep_inv)
    qed simp
  qed simp
  then show ?thesis using assms by (simp add: findKeyMatch_def keyLoopInv_def)
qed

lemma potentialKeys_member:
  assumes "p \<in> set (potentialKeys files)"
  shows "kc_uniquenessRatio p > 0.9 \<and> (\<exists>f \<in> set files. kc_fileId p = if_id f)"
  using assms by (auto simp: potentialKeys_def Let_def)

lemma finalDataMap_lookup:
  assumes "distinct (map if_id files)" "f \<in> set files"
  shows "map_of (newMap (map (\<lambda>f. (if_id f, rawData f)) files)) (if_id f) = Some (rawData f)"
proof (rule map_of_newMap_distinct)
  show "distinct (map fst (map (\<lambda>f. (if_id f, rawData f)) files))"
    using assms(1) by (simp add: comp_def)
  show "(if_id f, rawData f) \<in> set (map (\<lambda>f. (if_id f, rawData f)) files)"
    using assms(2) by auto
qed

lemma update_lookup_other:
  "k' \<noteq> k \<Longrightarrow> map_of (AList.update k v m) k' = map_of m k'"
  by (simp add: update_conv')

lemma update_lookup_same: "map_of (AList.update k v m) k = Some v"
  by (simp add: update_conv')

section \<open>Evaluating a run step by step\<close>

lemma nameSimilarity_lev:
  "nameSimilarity a b =
     (if max (length a) (length b) = 0 then 1
      else 1 - real (lev (rev a) (rev b)) / real (max (length a) (length b)))"
  by (simp add: nameSimilarity_def levenshtein_lev_rev Let_def)

lemmas eval_profile = createColumnProfile_def nonEmpty_def newSet_def setAdd_def cleanName_def
  toLowerCase_def lowerChar_def isSeparator_def suffixes_def Let_def

lemmas eval_confidence = calculateConfidence_def nameSimilarity_lev lev_same jaccardSimilarity_def
  newSet_def setAdd_def Let_def

lemmas eval_pairs = findBestPairs_def recordBestPair_def bestMatchFor_def columnKey_def Let_def

lemmas eval_clusters = buildClusters_def clusterStep_def splitPairKey_def scanPairs_def
  scanPair_def setAdd_def Let_def

lemmas eval_matches = makeMatch_def clusterConfidence_def countPair_def columnInMatch_def
  findMostDescriptiveName_def splitPairKey_def newMap_def columnKey_def Let_def

lemma showNat_0: "showNat 0 = ''0''"
  by (simp add: showNat.simps digitChar_def)

lemma generateMatches_eval:
  assumes "2 \<le> length files"
    and "concat (map (\<lambda>f. map (createColumnProfile N) (columns f)) files) = profiles"
    and "findBestPairs profiles = bestPairs"
    and "buildClusters (map fst bestPairs) = clusters"
    and "newMap (map (\<lambda>p. (columnKey (source p), p)) profiles) = profileMap"
    and "makeMatches profileMap bestPairs (map snd clusters) 0 = Inr ms"
    and "sort_key (\<lambda>m. - programmaticConfidence m) ms = sorted_ms"
    and "filter (\<lambda>c. columnKey c \<notin> set (concat (map snd clusters))) (concat (map columns files)) = rest"
  shows "generateMatches N files = Inr \<lparr> matches = sorted_ms, unmatched = rest \<rparr>"
  using assms by (simp add: generateMatches_def Let_def)

lemma generateMatches_eval_error:
  assumes "2 \<le> length files"
    and "concat (map (\<lambda>f. map (createColumnProfile N) (columns f)) files) = profiles"
    and "findBestPairs profiles = bestPairs"
    and "buildClusters (map fst bestPairs) = clusters"
    and "newMap (map (\<lambda>p. (columnKey (source p), p)) profiles) = profileMap"
    and "makeMatches profileMap bestPairs (map snd clusters) 0 = Inl e"
  shows "generateMatches N files = Inl e"
  using assms by (simp add: generateMatches_def Let_def)

subsection \<open>The run on the two identifier columns\<close>

lemma idProfileA: "createColumnProfile N idColumnA = idProfileA"
  by (simp add: eval_profile idColumnA_def idProfileA_def)

lemma idProfileB: "createColumnProfile N idColumnB = idProfileB"
  by (simp add: eval_profile idColumnB_def idProfileB_def)

lemma idConfidenceAB: "calculateConfidence idProfileA idProfileB = 0.95"
  by (simp add: eval_confidence idProfileA_def idProfileB_def idColumnA_def idColumnB_def)

lemma idConfidenceBA: "calculateConfidence idProfileB idProfileA = 0.95"
  by (simp add: eval_confidence idProfileA_def idProfileB_def idColumnA_def idColumnB_def)

lemma idBestPairs:
  "findBestPairs [idProfileA, idProfileB]
     = [(''a.csv-0-id|b.csv-1-ID'', \<lparr> targetKey = ''b.csv-1-ID'', score = 0.95 \<rparr>)]"
  apply (simp add: eval_pairs idConfidenceAB idConfidenceBA)
  apply (simp add: idProfileA_def idProfileB_def idColumnA_def idColumnB_def)
  done

lemma idClusters:
  "buildClusters [''a.csv-0-id|b.csv-1-ID''] = [(''a.csv-0-id'', [''a.csv-0-id'', ''b.csv-1-ID''])]"
  by (simp add: eval_clusters)

lemma idRun: "generateMatches N idFiles = Inr \<lparr> matches = [idMatch], unmatched = [] \<rparr>"
proof (rule generateMatches_eval)
  show "2 \<le> length idFiles" by (simp add: idFiles_def)
  show "concat (map (\<lambda>f. map (createColumnProfile N) (columns f)) idFiles) = [idProfileA, idProfileB]"
    by (simp add: idFiles_def idProfileA idProfileB)
  show "findBestPairs [idProfileA, idProfileB]
      = [(''a.csv-0-id|b.csv-1-ID'', \<lparr> targetKey = ''b.csv-1-ID'', score = 0.95 \<rparr>)]"
    by (rule idBestPairs)
  show "buildClusters (map fst [(''a.csv-0-id|b.csv-1-ID'', \<lparr> targetKey = ''b.csv-1-ID'', score = 0.95 \<rparr>)])
      = [(''a.csv-0-id'', [''a.csv-0-id'', ''b.csv-1-ID''])]"
    using idClusters by simp
  show "newMap (map (\<lambda>p. (columnKey (source p), p)) [idProfileA, idProfileB])
      = [(''a.csv-0-id'', idProfileA), (''b.csv-1-ID'', idProfileB)]"
    by (simp add: newMap_def columnKey_def idProfileA_def idProfileB_def idColumnA_def idColumnB_def)
  show "makeMatches [(''a.csv-0-id'', idProfileA), (''b.csv-1-ID'', idProfileB)]
      [(''a.csv-0-id|b.csv-1-ID'', \<lparr> targetKey = ''b.csv-1-ID'', score = 0.95 \<rparr>)]
      (map snd [(''a.csv-0-id'', [''a.csv-0-id'', ''b.csv-1-ID''])]) 0 = Inr [idMatch]"
    by (simp add: eval_matches showNat_0 idMatch_def idProfileA_def idProfileB_def
          idColumnA_def idColumnB_def)
  show "sort_key (\<lambda>m. - programmaticConfidence m) [idMatch] = [idMatch]" by simp
  show "filter (\<lambda>c. columnKey c \<notin> set (concat (map snd [(''a.csv-0-id'', [''a.csv-0-id'', ''b.csv-1-ID''])])))
      (concat (map columns idFiles)) = []"
    by (simp add: idFiles_def columnKey_def idColumnA_def idColumnB_def)
qed

subsection \<open>The run on the headers with a separator\<close>

lemma pipeProfiles: "allProfiles N pipeFiles = pipeProfiles"
  by (simp add: allProfiles_def pipeFiles_def pipeProfiles_def pipeProfile_def pipeColumn_def eval_profile)

lemma pipeConfidence:
  "calculateConfidence (pipeProfile f1 n1 [JStr u1, JStr v1]) (pipeProfile f2 n2 [JStr u2, JStr v2]) = 0.95"
  by (simp add: eval_confidence pipeProfile_def pipeColumn_def)

lemma pipeSource:
  "fileId (source (pipeProfile f n vs)) = f"
  "columnKey (source (pipeProfile f n vs)) = f @ ''-price|usd''"
  by (simp_all add: pipeProfile_def pipeColumn_def columnKey_def)

lemma pipeBestPairs: "findBestPairs pipeProfiles = pipeBestPairs"
  by (simp add: findBestPairs_def recordBestPair_def bestMatchFor_def Let_def pipeProfiles_def
        pipeConfidence pipeSource pipeBestPairs_def)

lemma pipeClusters:
  "buildClusters (map fst pipeBestPairs) = [(''a.csv-0-price'', [''a.csv-0-price'', ''usd''])]"
  by (simp add: pipeBestPairs_def eval_clusters)

lemma pipeProfileMap:
  "newMap (map (\<lambda>p. (columnKey (source p), p)) pipeProfiles)
     = [(''a.csv-0-price|usd'', pipeProfile ''a.csv-0'' ''a.csv'' [JStr ''ten'', JStr ''nine'']),
        (''b.csv-1-price|usd'', pipeProfile ''b.csv-1'' ''b.csv'' [JStr ''six'', JStr ''five'']),
        (''c.csv-2-price|usd'', pipeProfile ''c.csv-2'' ''c.csv'' [JStr ''four'', JStr ''two''])]"
  by (simp add: newMap_def pipeProfiles_def pipeSource)

lemma pipeRun: "generateMatches N pipeFiles = Inl TypeError"
proof (rule generateMatches_eval_error)
  show "2 \<le> length pipeFiles" by (simp add: pipeFiles_def)
  show "concat (map (\<lambda>f. map (createColumnProfile N) (columns f)) pipeFiles) = pipeProfiles"
    using pipeProfiles[of N] by (simp add: allProfiles_def)
  show "findBestPairs pipeProfiles = pipeBestPairs" by (rule pipeBestPairs)
  show "buildClusters (map fst pipeBestPairs) = [(''a.csv-0-price'', [''a.csv-0-price'', ''usd''])]"
    by (rule pipeClusters)
  show "newMap (map (\<lambda>p. (columnKey (source p), p)) pipeProfiles)
     = [(''a.csv-0-price|usd'', pipeProfile ''a.csv-0'' ''a.csv'' [JStr ''ten'', JStr ''nine'']),
        (''b.csv-1-price|usd'', pipeProfile ''b.csv-1'' ''b.csv'' [JStr ''six'', JStr ''five'']),
        (''c.csv-2-price|usd'', pipeProfile ''c.csv-2'' ''c.csv'' [JStr ''four'', JStr ''two''])]"
    by (rule pipeProfileMap)
  show "makeMatches
      [(''a.csv-0-price|usd'', pipeProfile ''a.csv-0'' ''a.csv'' [JStr ''ten'', JStr ''nine'']),
        (''b.csv-1-price|usd'', pipeProfile ''b.csv-1'' ''b.csv'' [JStr ''six'', JStr ''five'']),
        (''c.csv-2-price|usd'', pipeProfile ''c.csv-2'' ''c.csv'' [JStr ''four'', JStr ''two''])]
      pipeBestPairs (map snd [(''a.csv-0-price'', [''a.csv-0-price'', ''usd''])]) 0 = Inl TypeError"
    by (simp add: makeMatch_def Let_def)
qed

subsection \<open>The run on the two columns with one key\<close>

lemma sameKeyProfiles: "allProfiles N sameKeyFiles = [sameKeyProfileA, sameKeyProfileB]"
  by (simp add: allProfiles_def sameKeyFiles_def sameKeyProfileA_def sameKeyProfileB_def
        sameKeyColumnA_def sameKeyColumnB_def eval_profile)

lemma sameKeyKeys:
  "columnKey sameKeyColumnA = ''t.csv-0-x.csv-1-a''"
  "columnKey sameKeyColumnB = ''t.csv-0-x.csv-1-a''"
  by (simp_all add: columnKey_def sameKeyColumnA_def sameKeyColumnB_def)

lemma sameKeyConfidence:
  "calculateConfidence sameKeyProfileA sameKeyProfileB = 26 / 35"
  "calculateConfidence sameKeyProfileB sameKeyProfileA = 26 / 35"
  by (simp_all add: eval_confidence sameKeyProfileA_def sameKeyProfileB_def
        sameKeyColumnA_def sameKeyColumnB_def)

lemma sameKeySource:
  "source sameKeyProfileA = sameKeyColumnA" "source sameKeyProfileB = sameKeyColumnB"
  "fileId sameKeyColumnA = ''t.csv-0''" "fileId sameKeyColumnB = ''t.csv-0-x.csv-1''"
  by (simp_all add: sameKeyProfileA_def sameKeyProfileB_def sameKeyColumnA_def sameKeyColumnB_def)

lemma sameKeyBestPairs:
  "findBestPairs [sameKeyProfileA, sameKeyProfileB]
     = [(''t.csv-0-x.csv-1-a|t.csv-0-x.csv-1-a'', \<lparr> targetKey = ''t.csv-0-x.csv-1-a'', score = 26 / 35 \<rparr>)]"
  by (simp add: findBestPairs_def recordBestPair_def bestMatchFor_def Let_def
        sameKeyConfidence sameKeySource sameKeyKeys)

lemma sameKeyClusters:
  "buildClusters [''t.csv-0-x.csv-1-a|t.csv-0-x.csv-1-a'']
     = [(''t.csv-0-x.csv-1-a'', [''t.csv-0-x.csv-1-a''])]"
  by (simp add: eval_clusters)

lemma sameKeyRun:
  "generateMatches N sameKeyFiles = Inr \<lparr> matches = [sameKeyMatch], unmatched = [] \<rparr>"
proof (rule generateMatches_eval)
  show "2 \<le> length sameKeyFiles" by (simp add: sameKeyFiles_def)
  show "concat (map (\<lambda>f. map (createColumnProfile N) (columns f)) sameKeyFiles)
      = [sameKeyProfileA, sameKeyProfileB]"
    using sameKeyProfiles[of N] by (simp add: allProfiles_def)
  show "findBestPairs [sameKeyProfileA, sameKeyProfileB]
     = [(''t.csv-0-x.csv-1-a|t.csv-0-x.csv-1-a'', \<lparr> targetKey = ''t.csv-0-x.csv-1-a'', score = 26 / 35 \<rparr>)]"
    by (rule sameKeyBestPairs)
  show "buildClusters (map fst [(''t.csv-0-x.csv-1-a|t.csv-0-x.csv-1-a'', \<lparr> targetKey = ''t.csv-0-x.csv-1-a'', score = 26 / 35 \<rparr>)])
     = [(''t.csv-0-x.csv-1-a'', [''t.csv-0-x.csv-1-a''])]"
    using sameKeyClusters by simp
  show "newMap (map (\<lambda>p. (columnKey (source p), p)) [sameKeyProfileA, sameKeyProfileB])
     = [(''t.csv-0-x.csv-1-a'', sameKeyProfileB)]"
    by (simp add: newMap_def sameKeySource sameKeyKeys)
  show "makeMatches [(''t.csv-0-x.csv-1-a'', sameKeyProfileB)]
      [(''t.csv-0-x.csv-1-a|t.csv-0-x.csv-1-a'', \<lparr> targetKey = ''t.csv-0-x.csv-1-a'', score = 26 / 35 \<rparr>)]
      (map snd [(''t.csv-0-x.csv-1-a'', [''t.csv-0-x.csv-1-a''])]) 0 = Inr [sameKeyMatch]"
    by (simp add: eval_matches showNat_0 sameKeyMatch_def sameKeyProfileB_def sameKeyColumnB_def)
  show "sort_key (\<lambda>m. - programmaticConfidence m) [sameKeyMatch] = [sameKeyMatch]" by simp
  show "filter (\<lambda>c. columnKey c \<notin> set (concat (map snd [(''t.csv-0-x.csv-1-a'', [''t.csv-0-x.csv-1-a''])])))
      (concat (map columns sameKeyFiles)) = []"
    by (simp add: sameKeyFiles_def sameKeyKeys)
qed

subsection \<open>The run on the three files\<close>

lemma lostProfiles: "allProfiles N lostFiles = [lostProfileA, lostProfileB, lostProfileC]"
  by (simp add: allProfiles_def lostFiles_def lostProfileA_def lostProfileB_def lostProfileC_def
        lostColumnA_def lostColumnB_def lostColumnC_def eval_profile)

lemma lostKeys:
  "columnKey lostColumnA = ''t.csv-0-x.csv-1-a''"
  "columnKey lostColumnB = ''t.csv-0-x.csv-1-a''"
  "columnKey lostColumnC = ''c.csv-2-a''"
  by (simp_all add: columnKey_def lostColumnA_def lostColumnB_def lostColumnC_def)

lemma lostConfidence:
  "calculateConfidence lostProfileA lostProfileB = 19 / 140"
  "calculateConfidence lostProfileA lostProfileC = 19 / 140"
  "calculateConfidence lostProfileB lostProfileA = 19 / 140"
  "calculateConfidence lostProfileC lostProfileA = 19 / 140"
  "calculateConfidence lostProfileB lostProfileC = 0.95"
  "calculateConfidence lostProfileC lostProfileB = 0.95"
  by (simp_all add: eval_confidence lostProfileA_def lostProfileB_def lostProfileC_def
        lostColumnA_def lostColumnB_def lostColumnC_def)

lemma lostSource:
  "source lostProfileA = lostColumnA" "source lostProfileB = lostColumnB"
  "source lostProfileC = lostColumnC"
  "fileId lostColumnA = ''t.csv-0''" "fileId lostColumnB = ''t.csv-0-x.csv-1''"
  "fileId lostColumnC = ''c.csv-2''"
  by (simp_all add: lostProfileA_def lostProfileB_def lostProfileC_def
        lostColumnA_def lostColumnB_def lostColumnC_def)

lemma lostBestPairs:
  "findBestPairs [lostProfileA, lostProfileB, lostProfileC]
     = [(''c.csv-2-a|t.csv-0-x.csv-1-a'', \<lparr> targetKey = ''c.csv-2-a'', score = 0.95 \<rparr>)]"
  by (simp add: findBestPairs_def recordBestPair_def bestMatchFor_def Let_def
        lostConfidence lostSource lostKeys)

lemma lostClusters:
  "buildClusters [''c.csv-2-a|t.csv-0-x.csv-1-a'']
     = [(''c.csv-2-a'', [''c.csv-2-a'', ''t.csv-0-x.csv-1-a''])]"
  by (simp add: eval_clusters)

lemma lostRun:
  "generateMatches N lostFiles = Inr \<lparr> matches = [lostMatch], unmatched = [] \<rparr>"
proof (rule generateMatches_eval)
  show "2 \<le> length lostFiles" by (simp add: lostFiles_def)
  show "concat (map (\<lambda>f. map (createColumnProfile N) (columns f)) lostFiles)
      = [lostProfileA, lostProfileB, lostProfileC]"
    using lostProfiles[of N] by (simp add: allProfiles_def)
  show "findBestPairs [lostProfileA, lostProfileB, lostProfileC]
     = [(''c.csv-2-a|t.csv-0-x.csv-1-a'', \<lparr> targetKey = ''c.csv-2-a'', score = 0.95 \<rparr>)]"
    by (rule lostBestPairs)
  show "buildClusters (map fst [(''c.csv-2-a|t.csv-0-x.csv-1-a'', \<lparr> targetKey = ''c.csv-2-a'', score = 0.95 \<rparr>)])
     = [(''c.csv-2-a'', [''c.csv-2-a'', ''t.csv-0-x.csv-1-a''])]"
    using lostClusters by simp
  show "newMap (map (\<lambda>p. (columnKey (source p), p)) [lostProfileA, lostProfileB, lostProfileC])
     = [(''t.csv-0-x.csv-1-a'', lostProfileB), (''c.csv-2-a'', lostProfileC)]"
    by (simp add: newMap_def lostSource lostKeys)
  show "makeMatches [(''t.csv-0-x.csv-1-a'', lostProfileB), (''c.csv-2-a'', lostProfileC)]
      [(''c.csv-2-a|t.csv-0-x.csv-1-a'', \<lparr> targetKey = ''c.csv-2-a'', score = 0.95 \<rparr>)]
      (map snd [(''c.csv-2-a'', [''c.csv-2-a'', ''t.csv-0-x.csv-1-a''])]) 0 = Inr [lostMatch]"
    by (simp add: eval_matches showNat_0 lostMatch_def lostProfileB_def lostProfileC_def
          lostColumnB_def lostColumnC_def)
  show "sort_key (\<lambda>m. - programmaticConfidence m) [lostMatch] = [lostMatch]" by simp
  show "filter (\<lambda>c. columnKey c \<notin> set (concat (map snd [(''c.csv-2-a'', [''c.csv-2-a'', ''t.csv-0-x.csv-1-a''])])))
      (concat (map columns lostFiles)) = []"
    by (simp add: lostFiles_def lostKeys)
qed

subsection \<open>The run on the columns of different types\<close>

lemma crossProfiles:
  "allProfiles N crossFiles = [crossProfileX, crossProfileP, crossProfileY, crossProfileQ]"
  by (simp add: allProfiles_def crossFiles_def crossProfileX_def crossProfileP_def
        crossProfileY_def crossProfileQ_def crossColumnX_def crossColumnP_def crossColumnY_def
        crossColumnQ_def eval_profile)

lemma crossKeys:
  "columnKey crossColumnX = ''a.csv-0-x''"
  "columnKey crossColumnP = ''a.csv-0-x|b.csv-1-y''"
  "columnKey crossColumnY = ''b.csv-1-y''"
  "columnKey crossColumnQ = ''b.csv-1-x|b.csv-1-y''"
  by (simp_all add: columnKey_def crossColumnX_def crossColumnP_def crossColumnY_def crossColumnQ_def)

lemma crossSource:
  "source crossProfileX = crossColumnX" "source crossProfileP = crossColumnP"
  "source crossProfileY = crossColumnY" "source crossProfileQ = crossColumnQ"
  "fileId crossColumnX = ''a.csv-0''" "fileId crossColumnP = ''a.csv-0''"
  "fileId crossColumnY = ''b.csv-1''" "fileId crossColumnQ = ''b.csv-1''"
  "dataType crossColumnX = TDate" "dataType crossColumnP = TString"
  "dataType crossColumnY = TNumber" "dataType crossColumnQ = TString"
  by (simp_all add: crossProfileX_def crossProfileP_def crossProfileY_def crossProfileQ_def
        crossColumnX_def crossColumnP_def crossColumnY_def crossColumnQ_def)

lemma crossConfidence:
  "calculateConfidence crossProfileX crossProfileY = 0"
  "calculateConfidence crossProfileX crossProfileQ = 0"
  "calculateConfidence crossProfileP crossProfileY = 0"
  "calculateConfidence crossProfileY crossProfileX = 0"
  "calculateConfidence crossProfileY crossProfileP = 0"
  "calculateConfidence crossProfileQ crossProfileX = 0"
  "calculateConfidence crossProfileP crossProfileQ = 0.95"
  "calculateConfidence crossProfileQ crossProfileP = 0.95"
  by (simp_all add: calculateConfidence_type_mismatch crossSource)
     (simp_all add: eval_confidence crossProfileP_def crossProfileQ_def crossColumnP_def crossColumnQ_def)

lemma crossBestPairs:
  "findBestPairs [crossProfileX, crossProfileP, crossProfileY, crossProfileQ]
     = [(''a.csv-0-x|b.csv-1-y|b.csv-1-x|b.csv-1-y'',
         \<lparr> targetKey = ''b.csv-1-x|b.csv-1-y'', score = 0.95 \<rparr>)]"
  by (simp add: findBestPairs_def recordBestPair_def bestMatchFor_def Let_def
        crossConfidence crossSource crossKeys)

lemma crossClusters:
  "buildClusters [''a.csv-0-x|b.csv-1-y|b.csv-1-x|b.csv-1-y'']
     = [(''a.csv-0-x'', [''a.csv-0-x'', ''b.csv-1-y''])]"
  by (simp add: eval_clusters)

lemma crossRun:
  "generateMatches N crossFiles
     = Inr \<lparr> matches = [crossMatch], unmatched = [crossColumnP, crossColumnQ] \<rparr>"
proof (rule generateMatches_eval)
  show "2 \<le> length crossFiles" by (simp add: crossFiles_def)
  show "concat (map (\<lambda>f. map (createColumnProfile N) (columns f)) crossFiles)
      = [crossProfileX, crossProfileP, crossProfileY, crossProfileQ]"
    using crossProfiles[of N] by (simp add: allProfiles_def)
  show "findBestPairs [crossProfileX, crossProfileP, crossProfileY, crossProfileQ]
     = [(''a.csv-0-x|b.csv-1-y|b.csv-1-x|b.csv-1-y'',
         \<lparr> targetKey = ''b.csv-1-x|b.csv-1-y'', score = 0.95 \<rparr>)]"
    by (rule crossBestPairs)
  show "buildClusters (map fst [(''a.csv-0-x|b.csv-1-y|b.csv-1-x|b.csv-1-y'',
         \<lparr> targetKey = ''b.csv-1-x|b.csv-1-y'', score = 0.95 \<rparr>)])
     = [(''a.csv-0-x'', [''a.csv-0-x'', ''b.csv-1-y''])]"
    using crossClusters by simp
  show "newMap (map (\<lambda>p. (columnKey (source p), p))
          [crossProfileX, crossProfileP, crossProfileY, crossProfileQ])
     = [(''a.csv-0-x'', crossProfileX), (''a.csv-0-x|b.csv-1-y'', crossProfileP),
        (''b.csv-1-y'', crossProfileY), (''b.csv-1-x|b.csv-1-y'', crossProfileQ)]"
    by (simp add: newMap_def crossSource crossKeys)
  show "makeMatches [(''a.csv-0-x'', crossProfileX), (''a.csv-0-x|b.csv-1-y'', crossProfileP),
        (''b.csv-1-y'', crossProfileY), (''b.csv-1-x|b.csv-1-y'', crossProfileQ)]
      [(''a.csv-0-x|b.csv-1-y|b.csv-1-x|b.csv-1-y'',
         \<lparr> targetKey = ''b.csv-1-x|b.csv-1-y'', score = 0.95 \<rparr>)]
      (map snd [(''a.csv-0-x'', [''a.csv-0-x'', ''b.csv-1-y''])]) 0 = Inr [crossMatch]"
    by (simp add: eval_matches showNat_0 crossMatch_def crossProfileX_def crossProfileY_def
          crossColumnX_def crossColumnY_def)
  show "sort_key (\<lambda>m. - programmaticConfidence m) [crossMatch] = [crossMatch]" by simp
  show "filter (\<lambda>c. columnKey c \<notin> set (concat (map snd [(''a.csv-0-x'', [''a.csv-0-x'', ''b.csv-1-y''])])))
      (concat (map columns crossFiles)) = [crossColumnP, crossColumnQ]"
    by (simp add: crossFiles_def crossKeys)
qed

subsection \<open>The profiles of the amount and the balance\<close>

lemma sqrt_225: "sqrt 225 = 15"
  by (rule real_sqrt_unique) simp_all

lemma sqrt_225000000: "sqrt 225000000 = 15000"
  by (rule real_sqrt_unique) simp_all

lemma floor_log10_25: "\<lfloor>log 10 (25::real)\<rfloor> = 1"
  using floor_log_eq_powr_iff[of "25::real" 10 1] by simp

lemma floor_log10_25000: "\<lfloor>log 10 (25000::real)\<rfloor> = 4"
  using floor_log10_large[of 25000] by simp

lemma amountProfile: "createColumnProfile N amountColumn = amountProfile"
  by (simp add: createColumnProfile_def getNumericStats_def Let_def amountColumn_def
        amountProfile_def nonEmpty_def newSet_def setAdd_def cleanName_def toLowerCase_def
        lowerChar_def isSeparator_def suffixes_def List.map_filter_simps Number_js_def
        sqrt_225 floor_log10_25)

lemma balanceProfile: "createColumnProfile N balanceColumn = balanceProfile"
  by (simp add: createColumnProfile_def getNumericStats_def Let_def balanceColumn_def
        balanceProfile_def nonEmpty_def newSet_def setAdd_def cleanName_def toLowerCase_def
        lowerChar_def isSeparator_def suffixes_def List.map_filter_simps Number_js_def
        sqrt_225000000 floor_log10_25000)

subsection \<open>The alignment of the two order files\<close>

lemma orderSampleA:
  "filter nonEmpty (map (\<lambda>r. rowGet r ''order_id'') (take 100 (rawData orderFileA)))
     = map JStr [''a'', ''b'', ''c'', ''d'', ''e'', ''f'', ''g'', ''h'', ''i'', ''j'', ''k'']"
  by (simp add: orderFileA_def rowGet_def nonEmpty_def)

lemma orderSampleB:
  "filter nonEmpty (map (\<lambda>r. rowGet r ''orderId'') (take 100 (rawData orderFileB)))
     = map JStr [''k'', ''j'', ''i'', ''h'', ''g'', ''f'', ''e'', ''d'', ''c'', ''b'', ''a'']"
  by (simp add: orderFileB_def rowGet_def nonEmpty_def)

lemma orderSetA:
  "length (newSet (map JStr [''a'', ''b'', ''c'', ''d'', ''e'', ''f'', ''g'', ''h'', ''i'', ''j'', ''k''])) = 11"
  by (simp add: newSet_def setAdd_def)

lemma orderSetB:
  "length (newSet (map JStr [''k'', ''j'', ''i'', ''h'', ''g'', ''f'', ''e'', ''d'', ''c'', ''b'', ''a''])) = 11"
  by (simp add: newSet_def setAdd_def)

lemma orderCleanNames: "cleanName ''order_id'' = ''orderid''" "cleanName ''orderId'' = ''orderid''"
  by (simp_all add: cleanName_def toLowerCase_def lowerChar_def isSeparator_def)

lemma orderSimpleProfileA:
  "createSimpleProfile ''order_id'' (rawData orderFileA)
     = \<lparr> sp_header = ''order_id'', sp_uniquenessRatio = 1, sp_cleanedName = ''orderid'' \<rparr>"
  unfolding createSimpleProfile_def Let_def orderSampleA orderSetA orderCleanNames by simp

lemma orderSimpleProfileB:
  "createSimpleProfile ''orderId'' (rawData orderFileB)
     = \<lparr> sp_header = ''orderId'', sp_uniquenessRatio = 1, sp_cleanedName = ''orderid'' \<rparr>"
  unfolding createSimpleProfile_def Let_def orderSampleB orderSetB orderCleanNames by simp

lemma orderFileFields:
  "if_id orderFileA = ''orders.csv-0''" "if_name orderFileA = ''orders.csv''"
  "headers orderFileA = [''order_id'']"
  "if_id orderFileB = ''shipments.csv-1''" "if_name orderFileB = ''shipments.csv''"
  "headers orderFileB = [''orderId'']"
  by (simp_all add: orderFileA_def orderFileB_def)

lemma orderPotentialKeys: "potentialKeys [orderFileA, orderFileB] = [orderKeyA, orderKeyB]"
  by (simp add: potentialKeys_def Let_def orderFileFields orderSimpleProfileA orderSimpleProfileB
        orderKeyA_def orderKeyB_def)

lemma orderKeyMatch: "findKeyMatch [orderKeyA, orderKeyB] = Some orderKeyMatch"
  by (simp add: findKeyMatch_def keyStep_def Let_def orderKeyA_def orderKeyB_def orderKeyMatch_def
        nameSimilarity_lev lev_same)

lemma orderAlignRows:
  "alignRows [orderFileA, orderFileB] =
     Inr (\<lparr> success = True,
            message = ''Successfully aligned rows between '' @ quoted ''orders.csv''
              @ '' and '' @ quoted ''shipments.csv'' @ '' using columns ''
              @ quoted ''order_id'' @ '' and '' @ quoted ''orderId''
              @ ''. Sample data is now synchronized for these files.'' \<rparr>,
          [(''orders.csv-0'', map (\<lambda>v. [(''order_id'', JStr v)])
                   [''a'', ''b'', ''c'', ''d'', ''e'', ''f'', ''g'', ''h'', ''i'', ''j'', ''k'']),
           (''shipments.csv-1'', map (\<lambda>v. [(''orderId'', JStr v)])
                   [''a'', ''b'', ''c'', ''d'', ''e'', ''f'', ''g'', ''h'', ''i'', ''j'', ''k''])])"
  apply (simp add: alignRows_def orderPotentialKeys orderKeyMatch Let_def)
  apply (simp add: orderKeyMatch_def orderKeyA_def orderKeyB_def orderFileA_def orderFileB_def
        newMap_def keyIndex_def commonKeysOf_def rowGet_def)
  done

lemma shortPotentialKeys: "potentialKeys [shortFileA, shortFileB] = [orderKeyA, orderKeyB]"
  by (simp add: potentialKeys_def createSimpleProfile_def Let_def shortFileA_def shortFileB_def
        orderKeyA_def orderKeyB_def rowGet_def nonEmpty_def newSet_def setAdd_def orderCleanNames)

lemma showNat_1: "showNat (Suc 0) = ''1''"
  by (simp add: showNat.simps digitChar_def)

lemma shortAlignRows:
  "alignRows [shortFileA, shortFileB] =
     Inr (\<lparr> success = False,
            message = ''Found potential key columns ('' @ quoted ''order_id'' @ '' and ''
              @ quoted ''orderId'' @ '') but they had too few common values (1) to align rows confidently.'' \<rparr>,
          [(''orders.csv-0'', map (\<lambda>v. [(''order_id'', JStr v)]) [''a'', ''b'']),
           (''shipments.csv-1'', map (\<lambda>v. [(''orderId'', JStr v)]) [''b'', ''c''])])"
  apply (simp add: alignRows_def shortPotentialKeys orderKeyMatch Let_def)
  apply (simp add: orderKeyMatch_def orderKeyA_def orderKeyB_def shortFileA_def shortFileB_def
        newMap_def keyIndex_def commonKeysOf_def rowGet_def showNat_1)
  done

section \<open>Claims\<close>

text \<open>
  C1. A pair of profiles whose data types differ gets the confidence 0 (lemma
  \<open>calculateConfidence_type_mismatch\<close>), but a match can still hold two columns of different
  types. In the run below, file \<open>a.csv\<close> has the date column \<open>x\<close> and file \<open>b.csv\<close> the number
  column \<open>y\<close>, and both have a text column with the header \<open>x|b.csv-1-y\<close>. The two text columns
  form the only accepted pair; its key, split at \<open>|\<close>, yields the keys of \<open>x\<close> and \<open>y\<close>, and the
  emitted match holds \<open>x\<close> and \<open>y\<close>, while the two text columns are returned as unmatched.
\<close>

theorem cross_type_match_emitted:
  "generateMatches N crossFiles
     = Inr \<lparr> matches = [crossMatch], unmatched = [crossColumnP, crossColumnQ] \<rparr>
   \<and> match_columns crossMatch
       = [\<lparr> cm_fileId = fileId crossColumnX, cm_fileName = fileName crossColumnX,
             columnName = originalName crossColumnX \<rparr>,
          \<lparr> cm_fileId = fileId crossColumnY, cm_fileName = fileName crossColumnY,
             columnName = originalName crossColumnY \<rparr>]
   \<and> dataType crossColumnX = TDate \<and> dataType crossColumnY = TNumber
   \<and> calculateConfidence (createColumnProfile N crossColumnX) (createColumnProfile N crossColumnY) = 0"
proof (intro conjI)
  show "generateMatches N crossFiles
     = Inr \<lparr> matches = [crossMatch], unmatched = [crossColumnP, crossColumnQ] \<rparr>"
    by (rule crossRun)
  show "match_columns crossMatch
       = [\<lparr> cm_fileId = fileId crossColumnX, cm_fileName = fileName crossColumnX,
             columnName = originalName crossColumnX \<rparr>,
          \<lparr> cm_fileId = fileId crossColumnY, cm_fileName = fileName crossColumnY,
             columnName = originalName crossColumnY \<rparr>]"
    by (simp add: crossMatch_def crossColumnX_def crossColumnY_def)
  show "dataType crossColumnX = TDate" by (simp add: crossColumnX_def)
  show "dataType crossColumnY = TNumber" by (simp add: crossColumnY_def)
  show "calculateConfidence (createColumnProfile N crossColumnX) (createColumnProfile N crossColumnY) = 0"
    by (rule calculateConfidence_type_mismatch)
       (simp add: createColumnProfile_def Let_def crossColumnX_def crossColumnY_def)
qed

text \<open>
  C2. The matched and the unmatched columns do not always make up the input. In the run
  below, the column \<open>x.csv-1-a\<close> of file \<open>t.csv\<close> and the column \<open>a\<close> of file \<open>t.csv-0-x.csv\<close>
  have the same key; the second is matched with the column \<open>a\<close> of \<open>c.csv\<close>, and the first is
  neither a member of the match nor returned as unmatched.
\<close>

theorem column_lost_from_partition:
  "generateMatches N lostFiles = Inr \<lparr> matches = [lostMatch], unmatched = [] \<rparr>
   \<and> concat (map columns lostFiles) = [lostColumnA, lostColumnB, lostColumnC]
   \<and> match_columns lostMatch
       = [\<lparr> cm_fileId = fileId lostColumnC, cm_fileName = fileName lostColumnC,
             columnName = originalName lostColumnC \<rparr>,
          \<lparr> cm_fileId = fileId lostColumnB, cm_fileName = fileName lostColumnB,
             columnName = originalName lostColumnB \<rparr>]
   \<and> columnKey lostColumnA = columnKey lostColumnB
   \<and> fileId lostColumnA \<noteq> fileId lostColumnB"
proof (intro conjI)
  show "generateMatches N lostFiles = Inr \<lparr> matches = [lostMatch], unmatched = [] \<rparr>"
    by (rule lostRun)
  show "concat (map columns lostFiles) = [lostColumnA, lostColumnB, lostColumnC]"
    by (simp add: lostFiles_def)
  show "match_columns lostMatch
       = [\<lparr> cm_fileId = fileId lostColumnC, cm_fileName = fileName lostColumnC,
             columnName = originalName lostColumnC \<rparr>,
          \<lparr> cm_fileId = fileId lostColumnB, cm_fileName = fileName lostColumnB,
             columnName = originalName lostColumnB \<rparr>]"
    by (simp add: lostMatch_def lostColumnB_def lostColumnC_def)
  show "columnKey lostColumnA = columnKey lostColumnB"
    by (simp add: lostKeys)
  show "fileId lostColumnA \<noteq> fileId lostColumnB"
    by (simp add: lostColumnA_def lostColumnB_def)
qed

text \<open>
  C3. Two accepted pairs with a common column do not always end in one match. In the run
  below, three files have a column with the header \<open>price|usd\<close>. The column of \<open>a.csv\<close> forms
  an accepted pair with the column of \<open>b.csv\<close> and one with the column of \<open>c.csv\<close>. The keys of
  the pairs, split at \<open>|\<close>, yield \<open>a.csv-0-price\<close> and \<open>usd\<close>, which are no column's keys, and
  the run throws a \<open>TypeError\<close> instead of emitting a match.
\<close>

theorem separator_in_header_throws:
  "findBestPairs (allProfiles N pipeFiles)
     = [(''a.csv-0-price|usd|b.csv-1-price|usd'', \<lparr> targetKey = ''b.csv-1-price|usd'', score = 0.95 \<rparr>),
        (''a.csv-0-price|usd|c.csv-2-price|usd'', \<lparr> targetKey = ''a.csv-0-price|usd'', score = 0.95 \<rparr>)]
   \<and> buildClusters (map fst (findBestPairs (allProfiles N pipeFiles)))
       = [(''a.csv-0-price'', [''a.csv-0-price'', ''usd''])]
   \<and> generateMatches N pipeFiles = Inl TypeError"
proof (intro conjI)
  have pairs: "findBestPairs (allProfiles N pipeFiles) = pipeBestPairs"
    by (simp add: pipeProfiles pipeBestPairs)
  show "findBestPairs (allProfiles N pipeFiles)
     = [(''a.csv-0-price|usd|b.csv-1-price|usd'', \<lparr> targetKey = ''b.csv-1-price|usd'', score = 0.95 \<rparr>),
        (''a.csv-0-price|usd|c.csv-2-price|usd'', \<lparr> targetKey = ''a.csv-0-price|usd'', score = 0.95 \<rparr>)]"
    using pairs by (simp add: pipeBestPairs_def)
  show "buildClusters (map fst (findBestPairs (allProfiles N pipeFiles)))
       = [(''a.csv-0-price'', [''a.csv-0-price'', ''usd''])]"
    using pipeClusters by (simp only: pairs)
  show "generateMatches N pipeFiles = Inl TypeError"
    by (rule pipeRun)
qed

text \<open>
  C4. A match can have a single member. In the run below, the column \<open>x.csv-1-a\<close> of file
  \<open>t.csv\<close> and the column \<open>a\<close> of file \<open>t.csv-0-x.csv\<close> have the same key and form an accepted
  pair; the cluster is that one key, and the emitted match has one member column.
\<close>

theorem single_member_match_emitted:
  "generateMatches N sameKeyFiles = Inr \<lparr> matches = [sameKeyMatch], unmatched = [] \<rparr>
   \<and> match_columns sameKeyMatch
       = [\<lparr> cm_fileId = fileId sameKeyColumnB, cm_fileName = fileName sameKeyColumnB,
             columnName = originalName sameKeyColumnB \<rparr>]
   \<and> concat (map columns sameKeyFiles) = [sameKeyColumnA, sameKeyColumnB]
   \<and> columnKey sameKeyColumnA = columnKey sameKeyColumnB"
proof (intro conjI)
  show "generateMatches N sameKeyFiles = Inr \<lparr> matches = [sameKeyMatch], unmatched = [] \<rparr>"
    by (rule sameKeyRun)
  show "match_columns sameKeyMatch
       = [\<lparr> cm_fileId = fileId sameKeyColumnB, cm_fileName = fileName sameKeyColumnB,
             columnName = originalName sameKeyColumnB \<rparr>]"
    by (simp add: sameKeyMatch_def sameKeyColumnB_def)
  show "concat (map columns sameKeyFiles) = [sameKeyColumnA, sameKeyColumnB]"
    by (simp add: sameKeyFiles_def)
  show "columnKey sameKeyColumnA = columnKey sameKeyColumnB"
    by (simp add: sameKeyKeys)
qed

text \<open>
  C7. For two number columns whose profiles both carry numeric statistics and which are not
  both of uniqueness ratio above 0.9, \<open>calculateConfidence\<close> returns \<open>0.2 * nameSim\<close> when the
  scale similarity \<open>1 - min 1 (|orderOfMagnitude A - orderOfMagnitude B| / 5)\<close> is below 0.5,
  and \<open>0.5 * nameSim + 0.3 * shapeSimilarity + 0.2 * scaleSimilarity\<close> otherwise. In
  particular, a column whose numbers (at least two) lie between 1 and 50 and a column whose
  numbers lie between 10000 and 50000 score \<open>0.2 * nameSim\<close>, which is not above the threshold 0.65, and in a run on
  the two tables that hold them both columns are returned as unmatched.
\<close>

theorem numeric_confidence_rule:
  "(dataType (source prof1) = TNumber \<and> dataType (source prof2) = TNumber
      \<and> numericStats prof1 = Some ns1 \<and> numericStats prof2 = Some ns2
      \<and> \<not> (uniquenessRatio prof1 > 0.9 \<and> uniquenessRatio prof2 > 0.9)
    \<longrightarrow> calculateConfidence prof1 prof2 =
         (if spec_scaleSimilarity ns1 ns2 < 0.5 then 0.2 * spec_nameSim prof1 prof2
          else 0.5 * spec_nameSim prof1 prof2 + 0.3 * spec_shapeSimilarity ns1 ns2
               + 0.2 * spec_scaleSimilarity ns1 ns2))
   \<and>
   (dataType cA = TNumber \<and> 2 \<le> length (numericValues N cA)
      \<and> (\<forall>x \<in> set (numericValues N cA). 1 \<le> x \<and> x \<le> 50)
      \<and> dataType cB = TNumber \<and> 2 \<le> length (numericValues N cB)
      \<and> (\<forall>y \<in> set (numericValues N cB). 10000 \<le> y \<and> y \<le> 50000)
      \<and> \<not> (uniquenessRatio (createColumnProfile N cA) > 0.9
             \<and> uniquenessRatio (createColumnProfile N cB) > 0.9)
      \<and> columns fA = [cA] \<and> columns fB = [cB]
    \<longrightarrow> calculateConfidence (createColumnProfile N cA) (createColumnProfile N cB)
          = 0.2 * spec_nameSim (createColumnProfile N cA) (createColumnProfile N cB)
        \<and> \<not> (calculateConfidence (createColumnProfile N cA) (createColumnProfile N cB) > 0.65)
        \<and> generateMatches N [fA, fB] = Inr \<lparr> matches = [], unmatched = [cA, cB] \<rparr>)"
proof (intro conjI impI)
  assume "dataType (source prof1) = TNumber \<and> dataType (source prof2) = TNumber
      \<and> numericStats prof1 = Some ns1 \<and> numericStats prof2 = Some ns2
      \<and> \<not> (uniquenessRatio prof1 > 0.9 \<and> uniquenessRatio prof2 > 0.9)"
  then show "calculateConfidence prof1 prof2 =
         (if spec_scaleSimilarity ns1 ns2 < 0.5 then 0.2 * spec_nameSim prof1 prof2
          else 0.5 * spec_nameSim prof1 prof2 + 0.3 * spec_shapeSimilarity ns1 ns2
               + 0.2 * spec_scaleSimilarity ns1 ns2)"
    using calculateConfidence_numeric[of prof1 prof2 ns1 ns2] by blast
next
  let ?pA = "createColumnProfile N cA" and ?pB = "createColumnProfile N cB"
  assume h: "dataType cA = TNumber \<and> 2 \<le> length (numericValues N cA)
      \<and> (\<forall>x \<in> set (numericValues N cA). 1 \<le> x \<and> x \<le> 50)
      \<and> dataType cB = TNumber \<and> 2 \<le> length (numericValues N cB)
      \<and> (\<forall>y \<in> set (numericValues N cB). 10000 \<le> y \<and> y \<le> 50000)
      \<and> \<not> (uniquenessRatio ?pA > 0.9 \<and> uniquenessRatio ?pB > 0.9)
      \<and> columns fA = [cA] \<and> columns fB = [cB]"
  then have cA: "dataType cA = TNumber" "2 \<le> length (numericValues N cA)"
      "\<forall>x \<in> set (numericValues N cA). 1 \<le> x \<and> x \<le> 50"
    and cB: "dataType cB = TNumber" "2 \<le> length (numericValues N cB)"
      "\<forall>y \<in> set (numericValues N cB). 10000 \<le> y \<and> y \<le> 50000"
    and notIds: "\<not> (uniquenessRatio ?pA > 0.9 \<and> uniquenessRatio ?pB > 0.9)"
    and cols: "columns fA = [cA]" "columns fB = [cB]"
    by simp_all
  have ab: "calculateConfidence ?pA ?pB = 0.2 * spec_nameSim ?pA ?pB"
    and ba: "calculateConfidence ?pB ?pA = 0.2 * spec_nameSim ?pB ?pA"
    using scale_mismatch_confidence[OF cA cB notIds] by simp_all
  show "calculateConfidence ?pA ?pB = 0.2 * spec_nameSim ?pA ?pB" by (rule ab)
  have le_ab: "calculateConfidence ?pA ?pB \<le> 0.65"
    using ab spec_nameSim_le_1[of ?pA ?pB] by simp
  have le_ba: "calculateConfidence ?pB ?pA \<le> 0.65"
    using ba spec_nameSim_le_1[of ?pB ?pA] by simp
  show "\<not> (calculateConfidence ?pA ?pB > 0.65)" using le_ab by simp
  have profiles: "allProfiles N [fA, fB] = [?pA, ?pB]"
    by (simp add: allProfiles_def cols)
  have "findBestPairs [?pA, ?pB] = []"
  proof (rule findBestPairs_none)
    fix i assume i: "i < length [?pA, ?pB]"
    show "score (bestMatchFor [?pA, ?pB] i) \<le> 0.65"
    proof (rule bestMatchFor_score_le)
      fix j assume j: "j < length [?pA, ?pB]" "j \<noteq> i"
      have "(i = 0 \<and> j = 1) \<or> (i = 1 \<and> j = 0)" using i j by auto
      then show "calculateConfidence ([?pA, ?pB] ! i) ([?pA, ?pB] ! j) \<le> 0.65"
        using le_ab le_ba by auto
    qed simp
  qed
  then have "findBestPairs (allProfiles N [fA, fB]) = []" using profiles by simp
  then have "generateMatches N [fA, fB]
      = Inr \<lparr> matches = [], unmatched = concat (map columns [fA, fB]) \<rparr>"
    by (intro generateMatches_no_pairs) simp_all
  then show "generateMatches N [fA, fB] = Inr \<lparr> matches = [], unmatched = [cA, cB] \<rparr>"
    using cols by simp
qed

theorem numeric_confidence_rule_witness:
  "calculateConfidence amountProfile balanceProfile = 0.2 * spec_nameSim amountProfile balanceProfile
   \<and> \<not> (calculateConfidence amountProfile balanceProfile > 0.65)
   \<and> generateMatches (\<lambda>s. None) amountFiles
       = Inr \<lparr> matches = [], unmatched = [amountColumn, balanceColumn] \<rparr>"
proof -
  define nsA where "nsA = \<lparr> mean = 25, stddev = 15, min_stat = 10, max_stat = 40,
                               range_stat = 30, orderOfMagnitude = (1::real) \<rparr>"
  define nsB where "nsB = \<lparr> mean = 25000, stddev = 15000, min_stat = 10000, max_stat = 40000,
                               range_stat = 30000, orderOfMagnitude = (4::real) \<rparr>"
  define fA where "fA = \<lparr> uf_id = ''a.csv-0'', uf_name = ''a.csv'', columns = [amountColumn],
         rowCount = 4, sourceId = 1, color = ''#A7C7E7'' \<rparr>"
  define fB where "fB = \<lparr> uf_id = ''b.csv-1'', uf_name = ''b.csv'', columns = [balanceColumn],
         rowCount = 4, sourceId = 2, color = ''#F8C8DC'' \<rparr>"
  note rule = numeric_confidence_rule[where ?prof1.0 = amountProfile and ?prof2.0 = balanceProfile
      and ?ns1.0 = nsA and ?ns2.0 = nsB and cA = amountColumn and cB = balanceColumn
      and N = "\<lambda>s. None" and fA = fA and fB = fB]
  have h1: "dataType (source amountProfile) = TNumber \<and> dataType (source balanceProfile) = TNumber
      \<and> numericStats amountProfile = Some nsA \<and> numericStats balanceProfile = Some nsB
      \<and> \<not> (uniquenessRatio amountProfile > 0.9 \<and> uniquenessRatio balanceProfile > 0.9)"
    by (simp add: amountProfile_def balanceProfile_def amountColumn_def balanceColumn_def
          nsA_def nsB_def)
  have scale: "spec_scaleSimilarity nsA nsB < 0.5"
    by (simp add: spec_scaleSimilarity_def nsA_def nsB_def)
  have nvA: "numericValues (\<lambda>s. None) amountColumn = [10, 10, 40, 40]"
    by (rule numericValues_JNum) (simp add: amountColumn_def)
  have nvB: "numericValues (\<lambda>s. None) balanceColumn = [10000, 10000, 40000, 40000]"
    by (rule numericValues_JNum) (simp add: balanceColumn_def)
  have h2: "dataType amountColumn = TNumber
      \<and> 2 \<le> length (numericValues (\<lambda>s. None) amountColumn)
      \<and> (\<forall>x \<in> set (numericValues (\<lambda>s. None) amountColumn). 1 \<le> x \<and> x \<le> 50)
      \<and> dataType balanceColumn = TNumber
      \<and> 2 \<le> length (numericValues (\<lambda>s. None) balanceColumn)
      \<and> (\<forall>y \<in> set (numericValues (\<lambda>s. None) balanceColumn). 10000 \<le> y \<and> y \<le> 50000)
      \<and> \<not> (uniquenessRatio (createColumnProfile (\<lambda>s. None) amountColumn) > 0.9
             \<and> uniquenessRatio (createColumnProfile (\<lambda>s. None) balanceColumn) > 0.9)
      \<and> columns fA = [amountColumn] \<and> columns fB = [balanceColumn]"
    by (simp add: amountProfile balanceProfile nvA nvB)
       (simp add: amountProfile_def amountColumn_def balanceColumn_def fA_def fB_def)
  have files: "amountFiles = [fA, fB]" by (simp add: amountFiles_def fA_def fB_def)
  have first: "calculateConfidence amountProfile balanceProfile
      = 0.2 * spec_nameSim amountProfile balanceProfile"
    using rule h1 scale by simp
  have second: "\<not> (calculateConfidence amountProfile balanceProfile > 0.65)
      \<and> generateMatches (\<lambda>s. None) [fA, fB]
           = Inr \<lparr> matches = [], unmatched = [amountColumn, balanceColumn] \<rparr>"
    using rule h2 by (simp only: amountProfile balanceProfile) blast
  show ?thesis using first second unfolding files by blast
qed

text \<open>
  C8. When the row aligner has selected a pair of key columns (two candidates of uniqueness
  ratio above 0.9 from different tables whose cleaned names have a similarity strictly above
  0.7), the alignment succeeds if and only if the two tables share at least 11 key values
  other than \<open>null\<close> and \<open>undefined\<close>. With 10 or fewer the result reports failure, its
  message contains the number of common keys, and the rows stay as they were. On success the
  rows of both tables become the rows of the common keys, in the order in which the keys
  appear first in the first table.
\<close>

theorem row_alignment_threshold:
  assumes ids: "distinct (map if_id files)"
    and best: "findKeyMatch (potentialKeys files) = Some bm"
    and f1: "f1 \<in> set files" "if_id f1 = kc_fileId (key1 bm)"
    and f2: "f2 \<in> set files" "if_id f2 = kc_fileId (key2 bm)"
  defines "h1 \<equiv> kc_header (key1 bm)" and "h2 \<equiv> kc_header (key2 bm)"
  defines "common \<equiv> commonKeyValues h1 (rawData f1) h2 (rawData f2)"
  defines "commonKeys \<equiv> filter (\<lambda>k. k \<in> common) (newSet (keyValues h1 (rawData f1)))"
  shows "km_score bm > 0.7
    \<and> km_score bm = nameSimilarity (kc_cleanedName (key1 bm)) (kc_cleanedName (key2 bm))
    \<and> kc_uniquenessRatio (key1 bm) > 0.9 \<and> kc_uniquenessRatio (key2 bm) > 0.9
    \<and> kc_fileId (key1 bm) \<noteq> kc_fileId (key2 bm)
    \<and> (\<exists>res dataMap. alignRows files = Inr (res, dataMap)
          \<and> (success res \<longleftrightarrow> 11 \<le> card common)
          \<and> (\<not> success res \<longrightarrow>
                message res = ''Found potential key columns ('' @ quoted h1 @ '' and '' @ quoted h2
                    @ '') but they had too few common values ('' @ showNat (card common)
                    @ '') to align rows confidently.''
                \<and> dataMap = newMap (map (\<lambda>f. (if_id f, rawData f)) files))
          \<and> (success res \<longrightarrow>
                (\<exists>rows1 rows2.
                    map_of dataMap (if_id f1) = Some rows1 \<and> map_of dataMap (if_id f2) = Some rows2
                    \<and> keyValues h1 rows1 = commonKeys \<and> keyValues h2 rows2 = commonKeys
                    \<and> set rows1 \<subseteq> set (rawData f1) \<and> set rows2 \<subseteq> set (rawData f2))))"
proof -
  let ?k1 = "key1 bm" and ?k2 = "key2 bm"
  let ?fdm = "newMap (map (\<lambda>f. (if_id f, rawData f)) files)"
  let ?m1 = "keyIndex h1 (rawData f1)" and ?m2 = "keyIndex h2 (rawData f2)"
  let ?ck = "commonKeysOf ?m1 ?m2"
  have good: "goodKeyMatch (potentialKeys files) bm" using best by (rule findKeyMatch_good)
  then have sel: "km_score bm > 0.7"
      "km_score bm = nameSimilarity (kc_cleanedName ?k1) (kc_cleanedName ?k2)"
      "kc_fileId ?k1 \<noteq> kc_fileId ?k2"
      "?k1 \<in> set (potentialKeys files)" "?k2 \<in> set (potentialKeys files)"
    by (simp_all add: goodKeyMatch_def)
  have uniq: "kc_uniquenessRatio ?k1 > 0.9" "kc_uniquenessRatio ?k2 > 0.9"
    using potentialKeys_member sel(4,5) by blast+
  have d1: "map_of ?fdm (kc_fileId ?k1) = Some (rawData f1)"
    using finalDataMap_lookup[OF ids f1(1)] f1(2) by simp
  have d2: "map_of ?fdm (kc_fileId ?k2) = Some (rawData f2)"
    using finalDataMap_lookup[OF ids f2(1)] f2(2) by simp
  have ck: "?ck = commonKeys"
    by (simp add: commonKeysOf_alt commonKeys_def common_def)
  have len: "length ?ck = card common"
    by (simp add: length_commonKeysOf common_def)
  have in1: "\<And>k. k \<in> set ?ck \<Longrightarrow> map_of ?m1 k \<noteq> None"
    using keyIndex_defined[of h1 "rawData f1"]
    by (auto simp: commonKeysOf_alt set_newSet)
  have in2: "\<And>k. k \<in> set ?ck \<Longrightarrow> map_of ?m2 k \<noteq> None"
    by (auto simp: commonKeysOf_def)
  define rows1 where "rows1 = map (\<lambda>k. the (map_of ?m1 k)) ?ck"
  define rows2 where "rows2 = map (\<lambda>k. the (map_of ?m2 k)) ?ck"
  have t1: "those (map (map_of ?m1) ?ck) = Some rows1"
    unfolding rows1_def using in1 by (rule those_map_Some)
  have t2: "those (map (map_of ?m2) ?ck) = Some rows2"
    unfolding rows2_def using in2 by (rule those_map_Some)
  have r1: "keyValues h1 rows1 = ?ck \<and> set rows1 \<subseteq> set (rawData f1)"
  proof -
    have "\<And>k. k \<in> set ?ck \<Longrightarrow>
        the (map_of ?m1 k) \<in> set (rawData f1) \<and> rowGet (the (map_of ?m1 k)) h1 = k"
      using in1 keyIndex_lookup[of h1 "rawData f1"] by fastforce
    then show ?thesis
      by (auto simp: rows1_def keyValues_def intro: map_idI)
  qed
  have r2: "keyValues h2 rows2 = ?ck \<and> set rows2 \<subseteq> set (rawData f2)"
  proof -
    have "\<And>k. k \<in> set ?ck \<Longrightarrow>
        the (map_of ?m2 k) \<in> set (rawData f2) \<and> rowGet (the (map_of ?m2 k)) h2 = k"
      using in2 keyIndex_lookup[of h2 "rawData f2"] by fastforce
    then show ?thesis
      by (auto simp: rows2_def keyValues_def intro: map_idI)
  qed
  have run: "\<exists>res dataMap. alignRows files = Inr (res, dataMap)
          \<and> (success res \<longleftrightarrow> 11 \<le> card common)
          \<and> (\<not> success res \<longrightarrow>
                message res = ''Found potential key columns ('' @ quoted h1 @ '' and '' @ quoted h2
                    @ '') but they had too few common values ('' @ showNat (card common)
                    @ '') to align rows confidently.''
                \<and> dataMap = ?fdm)
          \<and> (success res \<longrightarrow>
                (\<exists>rows1 rows2.
                    map_of dataMap (if_id f1) = Some rows1 \<and> map_of dataMap (if_id f2) = Some rows2
                    \<and> keyValues h1 rows1 = commonKeys \<and> keyValues h2 rows2 = commonKeys
                    \<and> set rows1 \<subseteq> set (rawData f1) \<and> set rows2 \<subseteq> set (rawData f2)))"
  proof (cases "10 < length ?ck")
    case True
    have eq: "alignRows files =
        Inr (\<lparr> success = True,
               message = ''Successfully aligned rows between '' @ quoted (kc_fileName ?k1)
                 @ '' and '' @ quoted (kc_fileName ?k2) @ '' using columns ''
                 @ quoted (kc_header ?k1) @ '' and '' @ quoted (kc_header ?k2)
                 @ ''. Sample data is now synchronized for these files.'' \<rparr>,
             AList.update (kc_fileId ?k2) rows2 (AList.update (kc_fileId ?k1) rows1 ?fdm))"
      using True t1 t2 d1 d2
      by (simp add: alignRows_def best Let_def h1_def[symmetric] h2_def[symmetric])
    have l2: "map_of (AList.update (kc_fileId ?k2) rows2 (AList.update (kc_fileId ?k1) rows1 ?fdm))
          (if_id f2) = Some rows2"
      using f2(2) by (simp add: update_lookup_same)
    have l1: "map_of (AList.update (kc_fileId ?k2) rows2 (AList.update (kc_fileId ?k1) rows1 ?fdm))
          (if_id f1) = Some rows1"
      using f1(2) sel(3) by (simp add: update_lookup_other update_lookup_same)
    show ?thesis
      using eq True len l1 l2 r1 r2 ck by auto
  next
    case False
    have eq: "alignRows files =
        Inr (\<lparr> success = False,
               message = ''Found potential key columns ('' @ quoted h1 @ '' and '' @ quoted h2
                    @ '') but they had too few common values ('' @ showNat (length ?ck)
                    @ '') to align rows confidently.'' \<rparr>, ?fdm)"
      using False d1 d2
      by (simp add: alignRows_def best Let_def h1_def[symmetric] h2_def[symmetric])
    show ?thesis
      using eq False len by auto
  qed
  show ?thesis using sel(1,2,3) uniq run by blast
qed

theorem row_alignment_threshold_witness:
  "alignRows [orderFileA, orderFileB] =
     Inr (\<lparr> success = True,
            message = ''Successfully aligned rows between '' @ quoted ''orders.csv''
              @ '' and '' @ quoted ''shipments.csv'' @ '' using columns ''
              @ quoted ''order_id'' @ '' and '' @ quoted ''orderId''
              @ ''. Sample data is now synchronized for these files.'' \<rparr>,
          [(''orders.csv-0'', map (\<lambda>v. [(''order_id'', JStr v)])
                   [''a'', ''b'', ''c'', ''d'', ''e'', ''f'', ''g'', ''h'', ''i'', ''j'', ''k'']),
           (''shipments.csv-1'', map (\<lambda>v. [(''orderId'', JStr v)])
                   [''a'', ''b'', ''c'', ''d'', ''e'', ''f'', ''g'', ''h'', ''i'', ''j'', ''k''])])
   \<and> 11 \<le> card (commonKeyValues ''order_id'' (rawData orderFileA) ''orderId'' (rawData orderFileB))
   \<and> alignRows [shortFileA, shortFileB] =
     Inr (\<lparr> success = False,
            message = ''Found potential key columns ('' @ quoted ''order_id'' @ '' and ''
              @ quoted ''orderId'' @ '') but they had too few common values (1) to align rows confidently.'' \<rparr>,
          [(''orders.csv-0'', map (\<lambda>v. [(''order_id'', JStr v)]) [''a'', ''b'']),
           (''shipments.csv-1'', map (\<lambda>v. [(''orderId'', JStr v)]) [''b'', ''c''])])
   \<and> \<not> 11 \<le> card (commonKeyValues ''order_id'' (rawData shortFileA) ''orderId'' (rawData shortFileB))"
proof -
  have best: "findKeyMatch (potentialKeys [orderFileA, orderFileB]) = Some orderKeyMatch"
    by (simp add: orderPotentialKeys orderKeyMatch)
  have ids: "distinct (map if_id [orderFileA, orderFileB])" by (simp add: orderFileFields)
  have f1: "orderFileA \<in> set [orderFileA, orderFileB]" "if_id orderFileA = kc_fileId (key1 orderKeyMatch)"
    by (simp_all add: orderFileFields orderKeyMatch_def orderKeyA_def)
  have f2: "orderFileB \<in> set [orderFileA, orderFileB]" "if_id orderFileB = kc_fileId (key2 orderKeyMatch)"
    by (simp_all add: orderFileFields orderKeyMatch_def orderKeyB_def)
  have h: "kc_header (key1 orderKeyMatch) = ''order_id''" "kc_header (key2 orderKeyMatch) = ''orderId''"
    by (simp_all add: orderKeyMatch_def orderKeyA_def orderKeyB_def)
  have long: "11 \<le> card (commonKeyValues ''order_id'' (rawData orderFileA) ''orderId'' (rawData orderFileB))"
    using row_alignment_threshold[OF ids best f1 f2] orderAlignRows unfolding h by auto
  have best': "findKeyMatch (potentialKeys [shortFileA, shortFileB]) = Some orderKeyMatch"
    by (simp add: shortPotentialKeys orderKeyMatch)
  have ids': "distinct (map if_id [shortFileA, shortFileB])"
    by (simp add: shortFileA_def shortFileB_def)
  have g1: "shortFileA \<in> set [shortFileA, shortFileB]" "if_id shortFileA = kc_fileId (key1 orderKeyMatch)"
    by (simp_all add: shortFileA_def orderKeyMatch_def orderKeyA_def)
  have g2: "shortFileB \<in> set [shortFileA, shortFileB]" "if_id shortFileB = kc_fileId (key2 orderKeyMatch)"
    by (simp_all add: shortFileB_def orderKeyMatch_def orderKeyB_def)
  have short: "\<not> 11 \<le> card (commonKeyValues ''order_id'' (rawData shortFileA) ''orderId'' (rawData shortFileB))"
    using row_alignment_threshold[OF ids' best' g1 g2] shortAlignRows unfolding h by auto
  show ?thesis using orderAlignRows long shortAlignRows short by blast
qed

text \<open>
  C6. For all strings \<open>s1\<close> and \<open>s2\<close>, \<open>nameSimilarity s1 s2\<close> is 1 minus the Levenshtein
  edit distance (the least number of single-character insertions, deletions and
  substitutions that turn \<open>s1\<close> into \<open>s2\<close>) divided by the larger of the two lengths; the
  result lies between 0 and 1; for two empty strings it is 1.
\<close>

theorem nameSimilarity_edit_distance:
  fixes s1 s2 :: "'a list"
  shows "(s1 \<noteq> [] \<or> s2 \<noteq> [] \<longrightarrow>
      nameSimilarity s1 s2
        = 1 - real (edit_distance s1 s2) / real (max (length s1) (length s2)))
   \<and> 0 \<le> nameSimilarity s1 s2 \<and> nameSimilarity s1 s2 \<le> 1
   \<and> nameSimilarity ([] :: 'a list) [] = 1"
proof -
  define d m where "d = edit_distance s1 s2" and "m = max (length s1) (length s2)"
  have le: "d \<le> m" unfolding d_def m_def by (rule edit_distance_le_max)
  have eq: "nameSimilarity s1 s2 = (if m = 0 then 1 else 1 - real d / real m)"
    by (simp add: nameSimilarity_def levenshtein_edit_distance Let_def d_def m_def)
  have m0: "s1 \<noteq> [] \<or> s2 \<noteq> [] \<longrightarrow> m \<noteq> 0"
    by (auto simp: m_def)
  have first: "s1 \<noteq> [] \<or> s2 \<noteq> [] \<longrightarrow> nameSimilarity s1 s2 = 1 - real d / real m"
    using eq m0 by simp
  have lower: "0 \<le> nameSimilarity s1 s2"
  proof (cases "m = 0")
    case True
    then show ?thesis using eq by simp
  next
    case False
    then have "real d / real m \<le> 1" using le by (simp add: divide_le_eq_1)
    then show ?thesis using eq False by simp
  qed
  have upper: "nameSimilarity s1 s2 \<le> 1"
  proof (cases "m = 0")
    case True
    then show ?thesis using eq by simp
  next
    case False
    have "0 \<le> real d / real m" by simp
    then show ?thesis using eq False by simp
  qed
  have empty: "nameSimilarity ([] :: 'a list) [] = 1"
    by (simp add: nameSimilarity_def)
  show ?thesis using first lower upper empty unfolding d_def m_def by simp
qed

theorem nameSimilarity_edit_distance_witness:
  "nameSimilarity ''ab'' ''b'' = 1 - real (edit_distance ''ab'' ''b'') / real (max (length ''ab'') (length ''b''))
   \<and> edit_distance ''ab'' ''b'' = 1
   \<and> nameSimilarity ''ab'' ''b'' = 1 / 2"
proof -
  have d: "edit_distance ''ab'' ''b'' = 1" by (simp add: edit_distance_lev)
  have "nameSimilarity ''ab'' ''b''
      = 1 - real (edit_distance ''ab'' ''b'') / real (max (length ''ab'') (length ''b''))"
    using nameSimilarity_edit_distance[of "''ab''" "''b''"] by simp
  then show ?thesis using d by simp
qed

text \<open>
  C9. Given fewer than two files, \<open>generateMatches\<close> returns an empty list of matches and an
  empty list of unmatched columns, and does not fail, whatever columns the single file has.
\<close>

theorem generateMatches_fewer_than_two_files:
  "length files < 2 \<Longrightarrow> generateMatches strToNum files = Inr \<lparr> matches = [], unmatched = [] \<rparr>"
  by (simp add: generateMatches_def)

theorem generateMatches_fewer_than_two_files_witness:
  "generateMatches (\<lambda>s. None)
     [\<lparr> uf_id = ''a.csv-0'', uf_name = ''a.csv'',
         columns = [\<lparr> fileId = ''a.csv-0'', fileName = ''a.csv'', originalName = ''id'',
                       sampleData = [JStr ''1'', JStr ''2''], dataType = TNumber \<rparr>],
         rowCount = 2, sourceId = 1, color = ''#A7C7E7'' \<rparr>]
   = Inr \<lparr> matches = [], unmatched = [] \<rparr>"
  by (rule generateMatches_fewer_than_two_files) simp

end
